theory Spec2Isabelle
  imports Main "HOL-Library.Char_ord" "HOL-Library.List_Lexorder" "HOL-Library.Multiset"
begin

section \<open>Python values\<close>

text \<open>
  The receipt store of \<^verbatim>\<open>app/receipts.py\<close> handles receipts as \<^verbatim>\<open>dict[str, Any]\<close> and keeps
  them as JSON text. A Python \<^verbatim>\<open>str\<close> is modelled by a HOL \<open>string\<close> whose characters are
  the code points U+0000 to U+00FF; \<^verbatim>\<open>bytes\<close> are \<open>string\<close>s too, one \<open>char\<close> per byte.
  The values a receipt can hold are the JSON values without floating point numbers. A
  \<^verbatim>\<open>dict\<close> is an association list in insertion order (its keys are distinct in every
  dict that Python can build).
\<close>

datatype json =
    JNull
  | JBool bool
  | JInt int
  | JStr string
  | JList "json list"
  | JDict "(string \<times> json) list"

type_synonym dict = "(string \<times> json) list"

text \<open>
  The exceptions that the modelled code can meet. \<open>OSError\<close> stands for the subclasses
  that opening, reading or writing a file raises other than \<^verbatim>\<open>FileNotFoundError\<close>
  (\<^verbatim>\<open>PermissionError\<close>, \<^verbatim>\<open>IsADirectoryError\<close> and the like). \<open>OutsideModel\<close> is not a Python
  exception: it is the answer of the model where it has none, on a JSON text whose value
  it has no term for (a float, or an escape for a code point above U+00FF). An
  operation that meets such a text answers \<open>OutsideModel\<close> as a whole.
\<close>

datatype pyerr =
    JSONDecodeError
  | AttributeError
  | TypeError
  | ValueError
  | RuntimeError
  | OSError
  | UnicodeDecodeError
  | OverflowError
  | OutsideModel

text \<open>\<^verbatim>\<open>d.get(k)\<close>, \<^verbatim>\<open>d.get(k, default)\<close>, \<^verbatim>\<open>d[k] = v\<close> and \<^verbatim>\<open>dict(d)\<close> on a dict.\<close>

definition dict_get :: "dict \<Rightarrow> string \<Rightarrow> json" where
  "dict_get d k = (case map_of d k of None \<Rightarrow> JNull | Some v \<Rightarrow> v)"

definition dict_get_default :: "dict \<Rightarrow> string \<Rightarrow> json \<Rightarrow> json" where
  "dict_get_default d k dflt = (case map_of d k of None \<Rightarrow> dflt | Some v \<Rightarrow> v)"

fun dict_set :: "(string \<times> 'a) list \<Rightarrow> string \<Rightarrow> 'a \<Rightarrow> (string \<times> 'a) list" where
  "dict_set [] k v = [(k, v)]"
| "dict_set ((k', v') # d) k v = (if k' = k then (k, v) # d else (k', v') # dict_set d k v)"

definition dict_copy :: "dict \<Rightarrow> dict" where
  "dict_copy d = d"

text \<open>\<^verbatim>\<open>obj.get(k)\<close> on the result of \<^verbatim>\<open>json.loads\<close>: only a dict has the method.\<close>

fun obj_get :: "json \<Rightarrow> string \<Rightarrow> pyerr + json" where
  "obj_get (JDict d) k = Inr (dict_get d k)"
| "obj_get _ k = Inl AttributeError"

text \<open>Truth value of a Python object, as \<^verbatim>\<open>if x:\<close> tests it.\<close>

fun truthy :: "json \<Rightarrow> bool" where
  "truthy JNull = False"
| "truthy (JBool b) = b"
| "truthy (JInt i) = (i \<noteq> 0)"
| "truthy (JStr s) = (s \<noteq> [])"
| "truthy (JList xs) = (xs \<noteq> [])"
| "truthy (JDict d) = (d \<noteq> [])"

section \<open>\<^verbatim>\<open>json.dumps\<close>\<close>

text \<open>
  \<^verbatim>\<open>json.dumps(obj, sort_keys=..., ensure_ascii=False, separators=(item, key))\<close>. With
  \<^verbatim>\<open>ensure_ascii=False\<close> the encoder escapes the quote, the backslash and the characters
  below U+0020 only; every other character is copied as it is.
\<close>

definition hexchar :: "nat \<Rightarrow> char" where
  "hexchar n = ''0123456789abcdef'' ! (n mod 16)"

definition esc_char :: "char \<Rightarrow> string" where
  "esc_char c =
     (if c = CHR 0x22 then [CHR 0x5C, CHR 0x22]
      else if c = CHR 0x5C then [CHR 0x5C, CHR 0x5C]
      else if c = CHR 0x0A then [CHR 0x5C, CHR ''n'']
      else if c = CHR 0x0D then [CHR 0x5C, CHR ''r'']
      else if c = CHR 0x09 then [CHR 0x5C, CHR ''t'']
      else if c = CHR 0x08 then [CHR 0x5C, CHR ''b'']
      else if c = CHR 0x0C then [CHR 0x5C, CHR ''f'']
      else if (of_char c :: nat) < 32
        then [CHR 0x5C, CHR ''u'', CHR ''0'', CHR ''0'',
              hexchar (of_char c div 16), hexchar (of_char c mod 16)]
      else [c])"

definition encode_basestring :: "string \<Rightarrow> string" where
  "encode_basestring s = CHR 0x22 # concat (map esc_char s) @ [CHR 0x22]"

function str_nat :: "nat \<Rightarrow> string" where
  "str_nat n = (if n < 10 then [hexchar n] else str_nat (n div 10) @ [hexchar (n mod 10)])"
  by pat_completeness auto
termination
  by (relation "measure id") auto

declare str_nat.simps [simp del]

definition str_int :: "int \<Rightarrow> string" where
  "str_int i = (if i < 0 then CHR ''-'' # str_nat (nat (- i)) else str_nat (nat i))"

fun join :: "string \<Rightarrow> string list \<Rightarrow> string" where
  "join sep [] = []"
| "join sep [x] = x"
| "join sep (x # y # ys) = x @ sep @ join sep (y # ys)"

function dumps :: "bool \<Rightarrow> string \<Rightarrow> string \<Rightarrow> json \<Rightarrow> string" where
  "dumps sk isep ksep JNull = ''null''"
| "dumps sk isep ksep (JBool b) = (if b then ''true'' else ''false'')"
| "dumps sk isep ksep (JInt i) = str_int i"
| "dumps sk isep ksep (JStr s) = encode_basestring s"
| "dumps sk isep ksep (JList xs) = ''['' @ join isep (map (dumps sk isep ksep) xs) @ '']''"
| "dumps sk isep ksep (JDict d) =
     ''{'' @ join isep (map (\<lambda>(k, v). encode_basestring k @ ksep @ dumps sk isep ksep v)
                            (if sk then sort_key fst d else d)) @ ''}''"
  by pat_completeness auto
termination
proof (relation "measure (\<lambda>(sk, isep, ksep, v). size v)", goal_cases)
  case 1
  show ?case by simp
next
  case (2 sk isep ksep xs x)
  then show ?case by (simp add: size_list_estimation' less_Suc_eq_le)
next
  case (3 sk isep ksep d x k v)
  then have "(k, v) \<in> set d" by (auto split: if_splits)
  then have "size v < Suc (size_list (size_prod (\<lambda>x. 0) size) d)"
    by (induction d) auto
  then show ?case by simp
qed

text \<open>\<^verbatim>\<open>json.dumps(r2, ensure_ascii=False)\<close>, the call of \<^verbatim>\<open>ReceiptStore.add\<close>.\<close>

definition json_dumps :: "json \<Rightarrow> string" where
  "json_dumps v = dumps False '', '' '': '' v"

section \<open>\<^verbatim>\<open>app/utils.py\<close>\<close>

text \<open>\<^verbatim>\<open>str.encode("utf-8")\<close> on code points below U+0100: one byte, or two.\<close>

definition utf8_char :: "char \<Rightarrow> string" where
  "utf8_char c =
     (if (of_char c :: nat) < 128 then [c]
      else [char_of (192 + (of_char c :: nat) div 64), char_of (128 + (of_char c :: nat) mod 64)])"

definition encode_utf8 :: "string \<Rightarrow> string" where
  "encode_utf8 s = concat (map utf8_char s)"

definition canonical_json :: "json \<Rightarrow> string" where
  "canonical_json obj = encode_utf8 (dumps True '','' '':'' obj)"

text \<open>
  \<^verbatim>\<open>hashlib.sha256(data).digest()\<close> is the parameter \<open>H\<close>, from bytes to bytes;
  \<^verbatim>\<open>hexdigest()\<close> writes each byte of the digest as two lowercase hexadecimal digits.
\<close>

definition hexdigest :: "string \<Rightarrow> string" where
  "hexdigest bs = concat (map (\<lambda>b. [hexchar (of_char b div 16), hexchar (of_char b mod 16)]) bs)"

definition sha256_cid :: "(string \<Rightarrow> string) \<Rightarrow> string \<Rightarrow> string" where
  "sha256_cid H data = ''sha256:'' @ hexdigest (H data)"

section \<open>\<^verbatim>\<open>json.loads\<close>\<close>

text \<open>
  The decoder of the \<^verbatim>\<open>json\<close> module in its default (strict) mode: white space is the
  four characters space, tab, line feed and carriage return; a string ends at the first
  unescaped quote and holds no raw character below U+0020; a number without fraction
  and exponent is an \<^verbatim>\<open>int\<close>, and \<^verbatim>\<open>int\<close> raises \<^verbatim>\<open>ValueError\<close> on more than 4300 digits. A number with a fraction or an exponent, \<^verbatim>\<open>NaN\<close> and
  \<^verbatim>\<open>Infinity\<close> are floats, and an escape \<^verbatim>\<open>\uXXXX\<close> above \<^verbatim>\<open>\u00ff\<close> is a character that
  a \<open>string\<close> does not have: for these the model answers \<open>OutsideModel\<close>.
\<close>

definition is_json_ws :: "char \<Rightarrow> bool" where
  "is_json_ws c = (c = CHR '' '' \<or> c = CHR 0x09 \<or> c = CHR 0x0A \<or> c = CHR 0x0D)"

definition skip_ws :: "string \<Rightarrow> string" where
  "skip_ws s = dropWhile is_json_ws s"

definition is_digit :: "char \<Rightarrow> bool" where
  "is_digit c = (CHR ''0'' \<le> c \<and> c \<le> CHR ''9'')"

definition hexval :: "char \<Rightarrow> nat option" where
  "hexval c =
     (if is_digit c then Some (of_char c - 48)
      else if CHR ''a'' \<le> c \<and> c \<le> CHR ''f'' then Some (of_char c - 87)
      else if CHR ''A'' \<le> c \<and> c \<le> CHR ''F'' then Some (of_char c - 55)
      else None)"

definition backslash :: "char \<Rightarrow> char option" where
  "backslash e =
     (if e = CHR 0x22 then Some (CHR 0x22)
      else if e = CHR 0x5C then Some (CHR 0x5C)
      else if e = CHR ''/'' then Some (CHR ''/'')
      else if e = CHR ''b'' then Some (CHR 0x08)
      else if e = CHR ''f'' then Some (CHR 0x0C)
      else if e = CHR ''n'' then Some (CHR 0x0A)
      else if e = CHR ''r'' then Some (CHR 0x0D)
      else if e = CHR ''t'' then Some (CHR 0x09)
      else None)"

definition hex4 :: "char \<Rightarrow> char \<Rightarrow> char \<Rightarrow> char \<Rightarrow> nat option" where
  "hex4 h1 h2 h3 h4 =
     (case (hexval h1, hexval h2, hexval h3, hexval h4) of
        (Some a, Some b, Some x, Some y) \<Rightarrow> Some (4096 * a + 256 * b + 16 * x + y)
      | _ \<Rightarrow> None)"

text \<open>\<open>scanstring acc s\<close> reads a string body; \<open>s\<close> starts after the opening quote.\<close>

fun scanstring :: "string \<Rightarrow> string \<Rightarrow> pyerr + (string \<times> string)" where
  "scanstring acc [] = Inl JSONDecodeError"
| "scanstring acc (c # cs) =
     (if c = CHR 0x22 then Inr (rev acc, cs)
      else if c = CHR 0x5C then
        (case cs of
           [] \<Rightarrow> Inl JSONDecodeError
         | e # cs' \<Rightarrow>
             if e = CHR ''u'' then
               (case cs' of
                  h1 # h2 # h3 # h4 # rest \<Rightarrow>
                    (case hex4 h1 h2 h3 h4 of
                       None \<Rightarrow> Inl JSONDecodeError
                     | Some uni \<Rightarrow>
                         if uni < 256 then scanstring (char_of uni # acc) rest
                         else Inl OutsideModel)
                | _ \<Rightarrow> Inl JSONDecodeError)
             else
               (case backslash e of
                  None \<Rightarrow> Inl JSONDecodeError
                | Some ch \<Rightarrow> scanstring (ch # acc) cs'))
      else if (of_char c :: nat) < 32 then Inl JSONDecodeError
      else scanstring (c # acc) cs)"

text \<open>
  The number pattern \<^verbatim>\<open>(-?(?:0|[1-9]\d*))(\.\d+)?([eE][-+]?\d+)?\<close> at the start of \<open>s\<close>:
  \<open>match_int\<close> is its first group, with the sign, the digits and the rest of the text.
\<close>

definition match_int :: "string \<Rightarrow> (bool \<times> string \<times> string) option" where
  "match_int s =
     (let neg = (s \<noteq> [] \<and> hd s = CHR ''-'');
          t = (if neg then tl s else s)
      in case t of
           [] \<Rightarrow> None
         | d # t' \<Rightarrow>
             if d = CHR ''0'' then Some (neg, [d], t')
             else if is_digit d then Some (neg, d # takeWhile is_digit t', dropWhile is_digit t')
             else None)"

definition match_frac :: "string \<Rightarrow> bool" where
  "match_frac s = (case s of c # d # _ \<Rightarrow> c = CHR ''.'' \<and> is_digit d | _ \<Rightarrow> False)"

definition match_exp :: "string \<Rightarrow> bool" where
  "match_exp s =
     (case s of
        c # t \<Rightarrow>
          (c = CHR ''e'' \<or> c = CHR ''E'') \<and>
          (case t of
             d # t' \<Rightarrow>
               if d = CHR ''+'' \<or> d = CHR ''-'' then (case t' of x # _ \<Rightarrow> is_digit x | [] \<Rightarrow> False)
               else is_digit d
           | [] \<Rightarrow> False)
      | [] \<Rightarrow> False)"

definition nat_of_digits :: "string \<Rightarrow> nat" where
  "nat_of_digits ds = foldl (\<lambda>n c. 10 * n + (of_char c - 48)) 0 ds"

definition starts_with :: "string \<Rightarrow> string \<Rightarrow> bool" where
  "starts_with p s = (take (length p) s = p)"

text \<open>
  The scanner. The first argument bounds the depth of the calls; \<open>json_loads\<close> starts it
  above the length of the text, which no scan exhausts (each call below another has
  read a character more).
\<close>

fun scan_once :: "nat \<Rightarrow> string \<Rightarrow> pyerr + (json \<times> string)"
  and scan_array :: "nat \<Rightarrow> json list \<Rightarrow> string \<Rightarrow> pyerr + (json \<times> string)"
  and scan_object :: "nat \<Rightarrow> dict \<Rightarrow> string \<Rightarrow> pyerr + (json \<times> string)"
where
  "scan_once 0 s = Inl RuntimeError"
| "scan_once (Suc n) [] = Inl JSONDecodeError"
| "scan_once (Suc n) (c # cs) =
     (if c = CHR 0x22 then
        (case scanstring [] cs of
           Inl e \<Rightarrow> Inl e
         | Inr (str, rest) \<Rightarrow> Inr (JStr str, rest))
      else if c = CHR ''{'' then
        (case skip_ws cs of
           [] \<Rightarrow> Inl JSONDecodeError
         | c1 # cs1 \<Rightarrow>
             if c1 = CHR ''}'' then Inr (JDict [], cs1)
             else if c1 = CHR 0x22 then scan_object n [] cs1
             else Inl JSONDecodeError)
      else if c = CHR ''['' then
        (case skip_ws cs of
           [] \<Rightarrow> Inl JSONDecodeError
         | c1 # cs1 \<Rightarrow>
             if c1 = CHR '']'' then Inr (JList [], cs1)
             else scan_array n [] (c1 # cs1))
      else if starts_with ''null'' (c # cs) then Inr (JNull, drop 4 (c # cs))
      else if starts_with ''true'' (c # cs) then Inr (JBool True, drop 4 (c # cs))
      else if starts_with ''false'' (c # cs) then Inr (JBool False, drop 5 (c # cs))
      else
        (case match_int (c # cs) of
           Some (neg, ds, rest) \<Rightarrow>
             if match_frac rest \<or> match_exp rest then Inl OutsideModel
             else if length ds > 4300 then Inl ValueError
             else Inr (JInt (if neg then - int (nat_of_digits ds) else int (nat_of_digits ds)), rest)
         | None \<Rightarrow>
             if starts_with ''NaN'' (c # cs) \<or> starts_with ''Infinity'' (c # cs)
                \<or> starts_with ''-Infinity'' (c # cs)
             then Inl OutsideModel
             else Inl JSONDecodeError))"
| "scan_array 0 acc s = Inl RuntimeError"
| "scan_array (Suc n) acc s =
     (case scan_once n s of
        Inl e \<Rightarrow> Inl e
      | Inr (v, rest) \<Rightarrow>
          (case skip_ws rest of
             [] \<Rightarrow> Inl JSONDecodeError
           | c # cs \<Rightarrow>
               if c = CHR '']'' then Inr (JList (acc @ [v]), cs)
               else if c = CHR '','' then scan_array n (acc @ [v]) (skip_ws cs)
               else Inl JSONDecodeError))"
| "scan_object 0 acc s = Inl RuntimeError"
| "scan_object (Suc n) acc s =
     (case scanstring [] s of
        Inl e \<Rightarrow> Inl e
      | Inr (key, rest) \<Rightarrow>
          (case skip_ws rest of
             [] \<Rightarrow> Inl JSONDecodeError
           | c # cs \<Rightarrow>
               if c \<noteq> CHR '':'' then Inl JSONDecodeError
               else
                 (case scan_once n (skip_ws cs) of
                    Inl e \<Rightarrow> Inl e
                  | Inr (v, rest2) \<Rightarrow>
                      (case skip_ws rest2 of
                         [] \<Rightarrow> Inl JSONDecodeError
                       | c2 # cs2 \<Rightarrow>
                           if c2 = CHR ''}'' then Inr (JDict (dict_set acc key v), cs2)
                           else if c2 = CHR '','' then
                             (case skip_ws cs2 of
                                [] \<Rightarrow> Inl JSONDecodeError
                              | q # cs3 \<Rightarrow>
                                  if q = CHR 0x22 then scan_object n (dict_set acc key v) cs3
                                  else Inl JSONDecodeError)
                           else Inl JSONDecodeError))))"

definition json_loads :: "string \<Rightarrow> pyerr + json" where
  "json_loads s =
     (case scan_once (Suc (length s)) (skip_ws s) of
        Inl e \<Rightarrow> Inl e
      | Inr (v, rest) \<Rightarrow> if skip_ws rest = [] then Inr v else Inl JSONDecodeError)"

section \<open>Comparing and sorting Python values\<close>

text \<open>
  \<^verbatim>\<open>==\<close> and \<^verbatim>\<open><\<close> on the values of the model. \<^verbatim>\<open>bool\<close> is a subclass of \<^verbatim>\<open>int\<close>;
  two dicts are equal when they have the same keys with equal values, in any order;
  \<^verbatim>\<open><\<close> is defined between numbers, between strings and between lists, and raises
  \<^verbatim>\<open>TypeError\<close> otherwise.
\<close>

fun num_of :: "json \<Rightarrow> int option" where
  "num_of (JInt i) = Some i"
| "num_of (JBool b) = Some (if b then 1 else 0)"
| "num_of _ = None"

function (sequential) py_eq :: "json \<Rightarrow> json \<Rightarrow> bool" where
  "py_eq JNull JNull = True"
| "py_eq (JStr s) (JStr t) = (s = t)"
| "py_eq (JList xs) (JList ys) = list_all2 py_eq xs ys"
| "py_eq (JDict d) (JDict e) =
     (length d = length e \<and>
      list_all (\<lambda>(k, v). case map_of e k of None \<Rightarrow> False | Some w \<Rightarrow> py_eq v w) d)"
| "py_eq a b = (case (num_of a, num_of b) of (Some x, Some y) \<Rightarrow> x = y | _ \<Rightarrow> False)"
  by pat_completeness auto
termination
proof -
  have sz: "size v < Suc (size_list (size_prod (\<lambda>x. 0) size) d)" if "(k, v) \<in> set d"
    for k :: string and v :: json and d
    using that by (induction d) auto
  show ?thesis
    by (relation "measure (\<lambda>(a, b). size a)")
       (auto simp: size_list_estimation' less_Suc_eq_le dest: sz)
qed

fun py_lt :: "json \<Rightarrow> json \<Rightarrow> pyerr + bool"
  and py_lt_list :: "json list \<Rightarrow> json list \<Rightarrow> pyerr + bool"
where
  "py_lt (JInt i) (JInt j) = Inr (i < j)"
| "py_lt (JInt i) (JBool c) = Inr (i < (if c then 1 else 0))"
| "py_lt (JBool b) (JInt j) = Inr ((if b then 1 else 0) < j)"
| "py_lt (JBool b) (JBool c) = Inr (\<not> b \<and> c)"
| "py_lt (JStr s) (JStr t) = Inr (s < t)"
| "py_lt (JList xs) (JList ys) = py_lt_list xs ys"
| "py_lt _ _ = Inl TypeError"
| "py_lt_list [] [] = Inr False"
| "py_lt_list [] (y # ys) = Inr True"
| "py_lt_list (x # xs) [] = Inr False"
| "py_lt_list (x # xs) (y # ys) = (if py_eq x y then py_lt_list xs ys else py_lt x y)"

text \<open>
  The sort key of \<^verbatim>\<open>chain\<close>, \<^verbatim>\<open>(x.get("hop", 0), x.get("ts", ""))\<close>, and \<^verbatim>\<open><\<close> on such
  tuples: the first components that differ decide.
\<close>

definition sort_key_of :: "dict \<Rightarrow> json \<times> json" where
  "sort_key_of x = (dict_get_default x ''hop'' (JInt 0), dict_get_default x ''ts'' (JStr []))"

definition tuple_lt :: "json \<times> json \<Rightarrow> json \<times> json \<Rightarrow> pyerr + bool" where
  "tuple_lt p q =
     (if \<not> py_eq (fst p) (fst q) then py_lt (fst p) (fst q)
      else if \<not> py_eq (snd p) (snd q) then py_lt (snd p) (snd q)
      else Inr False)"

text \<open>
  \<^verbatim>\<open>out.sort(key=...)\<close>: a stable sort by \<^verbatim>\<open><\<close> on the keys. A comparison that raises
  ends the sort with its \<^verbatim>\<open>TypeError\<close>; the model raises when some two keys of the
  list cannot be compared, and else inserts each element behind the ones not greater.
\<close>

definition comparable :: "dict \<Rightarrow> dict \<Rightarrow> bool" where
  "comparable x y = (tuple_lt (sort_key_of x) (sort_key_of y) \<noteq> Inl TypeError)"

definition key_less :: "dict \<Rightarrow> dict \<Rightarrow> bool" where
  "key_less x y = (tuple_lt (sort_key_of x) (sort_key_of y) = Inr True)"

fun insert_sorted :: "dict \<Rightarrow> dict list \<Rightarrow> dict list" where
  "insert_sorted x [] = [x]"
| "insert_sorted x (y # ys) = (if key_less x y then x # y # ys else y # insert_sorted x ys)"

definition list_sort :: "dict list \<Rightarrow> pyerr + dict list" where
  "list_sort out =
     (if list_all (\<lambda>x. list_all (comparable x) out) out
      then Inr (foldl (\<lambda>acc x. insert_sorted x acc) [] out)
      else Inl TypeError)"

section \<open>\<^verbatim>\<open>ReceiptStore\<close>, the file-backed store\<close>

text \<open>
  The file system maps a path to the file, when there is one: its text, or the exception
  that opening and reading it raises (\<^verbatim>\<open>PermissionError\<close>, \<^verbatim>\<open>IsADirectoryError\<close>, or
  \<^verbatim>\<open>UnicodeDecodeError\<close> for bytes that are not UTF-8). \<open>denied\<close> gives, for a path that
  cannot be opened for writing, the exception that this raises. Time is counted
  in microseconds; a \<^verbatim>\<open>datetime\<close> is naive or carries an offset, and then it is kept as
  its instant in UTC. \<^verbatim>\<open>datetime.fromisoformat\<close> on a \<^verbatim>\<open>str\<close> is the parameter \<open>fromiso\<close>,
  \<^verbatim>\<open>datetime.now(datetime.UTC)\<close> is the parameter \<open>now\<close>.
\<close>

datatype node = Text string | Unreadable pyerr

record filesystem =
  nodes :: "string \<rightharpoonup> node"
  denied :: "string \<rightharpoonup> pyerr"

datatype datetime = Naive int | Aware int

record ReceiptStore =
  path :: string
  max_age_seconds :: int

text \<open>
  \<^verbatim>\<open>__init__\<close>: \<^verbatim>\<open>int(env_val or (max_age_seconds or 0))\<close>, and 0 when that raises.
  \<open>env\<close> is \<^verbatim>\<open>os.getenv\<close>, \<open>py_int\<close> is \<^verbatim>\<open>int\<close> on a \<^verbatim>\<open>str\<close>.
\<close>

definition or_str :: "string option \<Rightarrow> string option \<Rightarrow> string option" where
  "or_str a b = (case a of Some s \<Rightarrow> if s \<noteq> [] then Some s else b | None \<Rightarrow> b)"

definition ReceiptStore_init ::
  "(string \<Rightarrow> pyerr + int) \<Rightarrow> (string \<rightharpoonup> string) \<Rightarrow> string option \<Rightarrow> int option \<Rightarrow> ReceiptStore"
where
  "ReceiptStore_init py_int env path_arg max_age_arg =
     \<lparr> path = (case or_str (or_str path_arg (env ''ODIN_LOCAL_RECEIPTS'')) (Some ''receipts.log.jsonl'') of
                 Some p \<Rightarrow> p | None \<Rightarrow> ''receipts.log.jsonl''),
       max_age_seconds =
         (case or_str (env ''ODIN_RETENTION_MAX_AGE_SECONDS'') None of
            Some v \<Rightarrow> (case py_int v of Inl _ \<Rightarrow> 0 | Inr n \<Rightarrow> n)
          | None \<Rightarrow> (case max_age_arg of Some n \<Rightarrow> n | None \<Rightarrow> 0)) \<rparr>"

text \<open>
  \<^verbatim>\<open>str.splitlines\<close> and \<^verbatim>\<open>str.strip\<close>. Below U+0100 a line ends at LF, VT, FF, CR (CR LF
  is one end), FS, GS, RS and NEL (U+0085); white space is these, TAB, US, the space
  and the no-break space. Reading in text mode turns CR and CR LF into LF before
  \<^verbatim>\<open>splitlines\<close> sees them, which gives the same lines.
\<close>

definition is_linebreak :: "char \<Rightarrow> bool" where
  "is_linebreak c = (c \<in> {CHR 0x0A, CHR 0x0B, CHR 0x0C, CHR 0x0D, CHR 0x1C, CHR 0x1D, CHR 0x1E, CHR 0x85})"

definition is_space :: "char \<Rightarrow> bool" where
  "is_space c = (is_linebreak c \<or> c \<in> {CHR 0x09, CHR 0x1F, CHR 0x20, CHR 0xA0})"

fun splitlines_from :: "string \<Rightarrow> string \<Rightarrow> string list" where
  "splitlines_from cur [] = (if cur = [] then [] else [rev cur])"
| "splitlines_from cur [c] = (if is_linebreak c then [rev cur] else [rev (c # cur)])"
| "splitlines_from cur (c # d # cs) =
     (if c = CHR 0x0D \<and> d = CHR 0x0A then rev cur # splitlines_from [] cs
      else if is_linebreak c then rev cur # splitlines_from [] (d # cs)
      else splitlines_from (c # cur) (d # cs))"

definition splitlines :: "string \<Rightarrow> string list" where
  "splitlines s = splitlines_from [] s"

definition strip_nonempty :: "string \<Rightarrow> bool" where
  "strip_nonempty ln = (\<exists>c \<in> set ln. \<not> is_space c)"

text \<open>
  \<^verbatim>\<open>_read_lines\<close> catches \<^verbatim>\<open>FileNotFoundError\<close> only; \<^verbatim>\<open>_write_lines\<close> catches nothing.
  (What a write that fails half way leaves in the file is not modelled: a write either
  replaces the text or raises on opening.)
\<close>

definition read_lines :: "ReceiptStore \<Rightarrow> filesystem \<Rightarrow> pyerr + string list" where
  "read_lines self fs =
     (case nodes fs (path self) of
        None \<Rightarrow> Inr []
      | Some (Unreadable e) \<Rightarrow> Inl e
      | Some (Text txt) \<Rightarrow> Inr (filter strip_nonempty (splitlines txt)))"

definition write_lines :: "ReceiptStore \<Rightarrow> string list \<Rightarrow> filesystem \<Rightarrow> pyerr + filesystem" where
  "write_lines self lines fs =
     (case denied fs (path self) of
        Some e \<Rightarrow> Inl e
      | None \<Rightarrow>
          Inr (fs\<lparr>nodes := (nodes fs)(path self \<mapsto>
                 Text (join [CHR 0x0A] lines @ (if lines \<noteq> [] then [CHR 0x0A] else [])))\<rparr>))"

text \<open>
  \<^verbatim>\<open>_prune_by_age\<close>. The cutoff \<^verbatim>\<open>now - timedelta(seconds=max_age_seconds)\<close> is computed
  outside the \<^verbatim>\<open>try\<close>: \<^verbatim>\<open>timedelta\<close> raises \<^verbatim>\<open>OverflowError\<close> beyond 999999999 days, and
  the subtraction raises it below the first instant of year 1. The body of the loop is a
  \<^verbatim>\<open>try\<close>: whatever raises in it keeps the line. The cutoff carries the UTC offset, so
  comparing a naive \<^verbatim>\<open>ts\<close> with it raises.
\<close>

definition fromisoformat :: "(string \<Rightarrow> pyerr + datetime) \<Rightarrow> json \<Rightarrow> pyerr + datetime" where
  "fromisoformat fromiso v = (case v of JStr s \<Rightarrow> fromiso s | _ \<Rightarrow> Inl TypeError)"

fun datetime_ge :: "datetime \<Rightarrow> datetime \<Rightarrow> pyerr + bool" where
  "datetime_ge (Aware a) (Aware b) = Inr (a \<ge> b)"
| "datetime_ge (Naive a) (Naive b) = Inr (a \<ge> b)"
| "datetime_ge _ _ = Inl TypeError"

definition cutoff_of :: "int \<Rightarrow> int \<Rightarrow> pyerr + datetime" where
  "cutoff_of now max_age =
     (if max_age div 86400 > 999999999 then Inl OverflowError
      else if now - max_age * 1000000 < - 62135596800000000 then Inl OverflowError
      else Inr (Aware (now - max_age * 1000000)))"

definition line_kept :: "(string \<Rightarrow> pyerr + datetime) \<Rightarrow> datetime \<Rightarrow> string \<Rightarrow> pyerr + bool" where
  "line_kept fromiso cutoff ln =
     (case json_loads ln of
        Inl OutsideModel \<Rightarrow> Inl OutsideModel
      | Inl _ \<Rightarrow> Inr True
      | Inr obj \<Rightarrow>
          (case obj_get obj ''ts'' of
             Inl _ \<Rightarrow> Inr True
           | Inr tsv \<Rightarrow>
               (case fromisoformat fromiso tsv of
                  Inl _ \<Rightarrow> Inr True
                | Inr ts \<Rightarrow>
                    (case datetime_ge ts cutoff of
                       Inl _ \<Rightarrow> Inr True
                     | Inr keep \<Rightarrow> Inr keep))))"

fun prune_loop :: "(string \<Rightarrow> pyerr + datetime) \<Rightarrow> datetime \<Rightarrow> string list \<Rightarrow> pyerr + string list" where
  "prune_loop fromiso cutoff [] = Inr []"
| "prune_loop fromiso cutoff (ln # lines) =
     (case line_kept fromiso cutoff ln of
        Inl e \<Rightarrow> Inl e
      | Inr keep \<Rightarrow>
          (case prune_loop fromiso cutoff lines of
             Inl e \<Rightarrow> Inl e
           | Inr kept \<Rightarrow> Inr (if keep then ln # kept else kept)))"

definition prune_by_age ::
  "(string \<Rightarrow> pyerr + datetime) \<Rightarrow> int \<Rightarrow> ReceiptStore \<Rightarrow> string list \<Rightarrow> pyerr + string list"
where
  "prune_by_age fromiso now self lines =
     (if max_age_seconds self = 0 \<or> max_age_seconds self \<le> 0 then Inr lines
      else case cutoff_of now (max_age_seconds self) of
             Inl e \<Rightarrow> Inl e
           | Inr cutoff \<Rightarrow> prune_loop fromiso cutoff lines)"

text \<open>
  \<^verbatim>\<open>add\<close>. It returns the receipt and leaves the rewritten file. \<open>surviving_lines\<close> is its
  first two statements, \<open>last_hash\<close> the third.
\<close>

definition surviving_lines ::
  "(string \<Rightarrow> pyerr + datetime) \<Rightarrow> int \<Rightarrow> ReceiptStore \<Rightarrow> filesystem \<Rightarrow> pyerr + string list"
where
  "surviving_lines fromiso now self fs =
     (case read_lines self fs of
        Inl e \<Rightarrow> Inl e
      | Inr lines \<Rightarrow> prune_by_age fromiso now self lines)"

definition last_hash :: "string list \<Rightarrow> pyerr + json" where
  "last_hash lines =
     (if lines \<noteq> []
      then (case json_loads (last lines) of
              Inl e \<Rightarrow> Inl e
            | Inr obj \<Rightarrow> obj_get obj ''receipt_hash'')
      else Inr JNull)"

definition ReceiptStore_add ::
  "(string \<Rightarrow> string) \<Rightarrow> (string \<Rightarrow> pyerr + datetime) \<Rightarrow> int \<Rightarrow> ReceiptStore \<Rightarrow> filesystem \<Rightarrow> dict
     \<Rightarrow> pyerr + (dict \<times> filesystem)"
where
  "ReceiptStore_add H fromiso now self fs r =
     (case surviving_lines fromiso now self fs of
        Inl e \<Rightarrow> Inl e
      | Inr lines \<Rightarrow>
          (case last_hash lines of
             Inl e \<Rightarrow> Inl e
           | Inr prev_hash \<Rightarrow>
               (let r2 = dict_copy r;
                    r2 = dict_set r2 ''prev_receipt_hash'' prev_hash;
                    rh = sha256_cid H
                           (canonical_json (JDict (filter (\<lambda>(k, v). k \<noteq> ''receipt_hash'') r2)));
                    r2 = dict_set r2 ''receipt_hash'' (JStr rh);
                    lines = lines @ [json_dumps (JDict r2)]
                in case write_lines self lines fs of
                     Inl e \<Rightarrow> Inl e
                   | Inr fs' \<Rightarrow> Inr (r2, fs'))))"

text \<open>
  \<^verbatim>\<open>chain\<close>. A line that does not parse, or that is no object, is passed over; the file
  is read outside the \<^verbatim>\<open>try\<close>.
\<close>

definition chain_line :: "string \<Rightarrow> string \<Rightarrow> pyerr + dict option" where
  "chain_line trace_id ln =
     (case json_loads ln of
        Inl OutsideModel \<Rightarrow> Inl OutsideModel
      | Inl _ \<Rightarrow> Inr None
      | Inr (JDict obj) \<Rightarrow> Inr (if dict_get obj ''trace_id'' = JStr trace_id then Some obj else None)
      | Inr _ \<Rightarrow> Inr None)"

fun chain_loop :: "string \<Rightarrow> string list \<Rightarrow> pyerr + dict list" where
  "chain_loop trace_id [] = Inr []"
| "chain_loop trace_id (ln # lines) =
     (case chain_line trace_id ln of
        Inl e \<Rightarrow> Inl e
      | Inr m \<Rightarrow>
          (case chain_loop trace_id lines of
             Inl e \<Rightarrow> Inl e
           | Inr out \<Rightarrow> Inr (case m of Some obj \<Rightarrow> obj # out | None \<Rightarrow> out)))"

definition ReceiptStore_chain :: "ReceiptStore \<Rightarrow> filesystem \<Rightarrow> string \<Rightarrow> pyerr + dict list" where
  "ReceiptStore_chain self fs trace_id =
     (case read_lines self fs of
        Inl e \<Rightarrow> Inl e
      | Inr lines \<Rightarrow>
          (case chain_loop trace_id lines of
             Inl e \<Rightarrow> Inl e
           | Inr out \<Rightarrow> list_sort out))"

section \<open>\<^verbatim>\<open>FirestoreReceiptStore\<close>, the remote store\<close>

text \<open>
  The remote collection is outside the repository. Its state is the list of the documents
  inserted so far, and whether the service answers queries and accepts inserts (a call
  that it does not answer raises). The answer to the query
  \<^verbatim>\<open>order_by("ts", direction=DESCENDING).limit(1)\<close> is the parameter \<open>newest\<close> applied to
  the documents; \<^verbatim>\<open>where("trace_id", "==", t)\<close> selects the documents whose field is \<open>t\<close>,
  as the stub of \<^verbatim>\<open>tests/test_firestore_store.py\<close> does.
\<close>

record remote =
  documents :: "dict list"
  query_ok :: bool
  insert_ok :: bool

record FirestoreReceiptStore =
  project_id :: string
  collection :: string

definition latest_receipt_hash :: "(dict list \<Rightarrow> dict list) \<Rightarrow> remote \<Rightarrow> json" where
  "latest_receipt_hash newest rem =
     (if \<not> query_ok rem then JNull
      else case newest (documents rem) of
             [] \<Rightarrow> JNull
           | d # _ \<Rightarrow> dict_get d ''receipt_hash'')"

definition FirestoreReceiptStore_add ::
  "(string \<Rightarrow> string) \<Rightarrow> (dict list \<Rightarrow> dict list) \<Rightarrow> remote \<Rightarrow> dict \<Rightarrow> pyerr + (dict \<times> remote)"
where
  "FirestoreReceiptStore_add H newest rem r =
     (let prev_hash = latest_receipt_hash newest rem;
          r2 = dict_copy r;
          r2 = dict_set r2 ''prev_receipt_hash'' prev_hash;
          rh = sha256_cid H
                 (canonical_json (JDict (filter (\<lambda>(k, v). k \<noteq> ''receipt_hash'') r2)));
          r2 = dict_set r2 ''receipt_hash'' (JStr rh)
      in if insert_ok rem then Inr (r2, rem\<lparr>documents := documents rem @ [r2]\<rparr>)
         else Inl RuntimeError)"

definition FirestoreReceiptStore_chain :: "remote \<Rightarrow> string \<Rightarrow> pyerr + dict list" where
  "FirestoreReceiptStore_chain rem trace_id =
     list_sort (if query_ok rem
                then filter (\<lambda>d. map_of d ''trace_id'' = Some (JStr trace_id)) (documents rem)
                else [])"

section \<open>\<^verbatim>\<open>CachingReceiptStore\<close>\<close>

text \<open>
  The world that the stores act on is the file system and the remote collection. The
  library functions are gathered in one record.
\<close>

record world =
  files :: filesystem
  cloud :: remote

record pylib =
  sha256 :: "string \<Rightarrow> string"
  iso_parse :: "string \<Rightarrow> pyerr + datetime"
  newest_doc :: "dict list \<Rightarrow> dict list"
  int_of_str :: "string \<Rightarrow> pyerr + int"

datatype base_store = FileStore ReceiptStore | RemoteStore FirestoreReceiptStore

definition store_add :: "pylib \<Rightarrow> int \<Rightarrow> base_store \<Rightarrow> world \<Rightarrow> dict \<Rightarrow> pyerr + (dict \<times> world)" where
  "store_add L now st w r =
     (case st of
        FileStore self \<Rightarrow>
          (case ReceiptStore_add (sha256 L) (iso_parse L) now self (files w) r of
             Inl e \<Rightarrow> Inl e
           | Inr (r2, fs) \<Rightarrow> Inr (r2, w\<lparr>files := fs\<rparr>))
      | RemoteStore self \<Rightarrow>
          (case FirestoreReceiptStore_add (sha256 L) (newest_doc L) (cloud w) r of
             Inl e \<Rightarrow> Inl e
           | Inr (r2, rem) \<Rightarrow> Inr (r2, w\<lparr>cloud := rem\<rparr>)))"

definition store_chain :: "base_store \<Rightarrow> world \<Rightarrow> string \<Rightarrow> pyerr + dict list" where
  "store_chain st w trace_id =
     (case st of
        FileStore self \<Rightarrow> ReceiptStore_chain self (files w) trace_id
      | RemoteStore self \<Rightarrow> FirestoreReceiptStore_chain (cloud w) trace_id)"

record CachingReceiptStore =
  store :: base_store
  ttl_seconds :: int
  max_size :: int
  chains :: "(string \<times> dict list) list"
  last_refresh :: "(string \<times> int) list"
  total_cached :: int

definition CachingReceiptStore_init ::
  "pylib \<Rightarrow> (string \<rightharpoonup> string) \<Rightarrow> base_store \<Rightarrow> CachingReceiptStore"
where
  "CachingReceiptStore_init L env st =
     \<lparr> store = st,
       ttl_seconds =
         (case int_of_str L (case env ''ODIN_RECEIPT_CACHE_TTL_SECONDS'' of None \<Rightarrow> ''300'' | Some v \<Rightarrow> v) of
            Inl _ \<Rightarrow> 300 | Inr n \<Rightarrow> n),
       max_size =
         (case int_of_str L (case env ''ODIN_RECEIPT_CACHE_SIZE'' of None \<Rightarrow> ''1000'' | Some v \<Rightarrow> v) of
            Inl _ \<Rightarrow> 1000 | Inr n \<Rightarrow> n),
       chains = [], last_refresh = [], total_cached = 0 \<rparr>"

text \<open>
  \<^verbatim>\<open>d.pop(key, None)\<close> on a dict with \<^verbatim>\<open>str\<close> keys: an empty dict gives the default without
  hashing the key; otherwise a list or a dict as key raises \<^verbatim>\<open>TypeError\<close> (unhashable),
  and a key that is no \<^verbatim>\<open>str\<close> finds nothing.
\<close>

definition dict_pop :: "(string \<times> 'a) list \<Rightarrow> json \<Rightarrow> pyerr + (string \<times> 'a) list" where
  "dict_pop d key =
     (if d = [] then Inr d
      else case key of
             JStr s \<Rightarrow> Inr (filter (\<lambda>(k, v). k \<noteq> s) d)
           | JList _ \<Rightarrow> Inl TypeError
           | JDict _ \<Rightarrow> Inl TypeError
           | _ \<Rightarrow> Inr d)"

definition expired :: "CachingReceiptStore \<Rightarrow> int \<Rightarrow> string \<Rightarrow> bool" where
  "expired self now trace_id =
     (case map_of (last_refresh self) trace_id of
        None \<Rightarrow> True
      | Some ts \<Rightarrow>
          if ttl_seconds self \<le> 0 then False
          else now - ts > ttl_seconds self * 1000000)"

fun evict :: "(string \<times> int) list \<Rightarrow> CachingReceiptStore \<Rightarrow> CachingReceiptStore" where
  "evict [] self = self"
| "evict ((trace_id, t) # ordered) self =
     (let removed = int (length (case map_of (chains self) trace_id of None \<Rightarrow> [] | Some c \<Rightarrow> c));
          self = self\<lparr> chains := filter (\<lambda>(k, v). k \<noteq> trace_id) (chains self),
                       last_refresh := filter (\<lambda>(k, v). k \<noteq> trace_id) (last_refresh self),
                       total_cached := total_cached self - removed \<rparr>
      in if total_cached self \<le> max_size self then self else evict ordered self)"

definition enforce_size :: "CachingReceiptStore \<Rightarrow> CachingReceiptStore" where
  "enforce_size self =
     (if max_size self \<le> 0 then self
      else if total_cached self \<le> max_size self then self
      else evict (sort_key snd (last_refresh self)) self)"

text \<open>
  \<^verbatim>\<open>add\<close> and \<^verbatim>\<open>chain\<close> of the cache give the outcome of the call together with the cache
  and the world as the call leaves them, also when it raises.
\<close>

definition CachingReceiptStore_add ::
  "pylib \<Rightarrow> int \<Rightarrow> CachingReceiptStore \<Rightarrow> world \<Rightarrow> dict
     \<Rightarrow> (pyerr + dict) \<times> CachingReceiptStore \<times> world"
where
  "CachingReceiptStore_add L now self w r =
     (case store_add L now (store self) w r of
        Inl e \<Rightarrow> (Inl e, self, w)
      | Inr (added, w') \<Rightarrow>
          (let trace_id = dict_get added ''trace_id'' in
           if truthy trace_id then
             (case dict_pop (chains self) trace_id of
                Inl e \<Rightarrow> (Inl e, self, w')
              | Inr c \<Rightarrow>
                  (case dict_pop (last_refresh self) trace_id of
                     Inl e \<Rightarrow> (Inl e, self\<lparr>chains := c\<rparr>, w')
                   | Inr l \<Rightarrow> (Inr added, self\<lparr>chains := c, last_refresh := l\<rparr>, w')))
           else (Inr added, self, w')))"

definition CachingReceiptStore_chain ::
  "int \<Rightarrow> CachingReceiptStore \<Rightarrow> world \<Rightarrow> string \<Rightarrow> (pyerr + dict list) \<times> CachingReceiptStore"
where
  "CachingReceiptStore_chain now self w trace_id =
     (case map_of (chains self) trace_id of
        Some cached \<Rightarrow>
          if \<not> expired self now trace_id then (Inr cached, self)
          else
            (case store_chain (store self) w trace_id of
               Inl e \<Rightarrow> (Inl e, self)
             | Inr fresh \<Rightarrow>
                 (let c = dict_set (chains self) trace_id fresh in
                  (Inr fresh,
                   enforce_size (self\<lparr> chains := c,
                                       last_refresh := dict_set (last_refresh self) trace_id now,
                                       total_cached := (\<Sum>v \<leftarrow> map snd c. int (length v)) \<rparr>))))
      | None \<Rightarrow>
          (case store_chain (store self) w trace_id of
             Inl e \<Rightarrow> (Inl e, self)
           | Inr fresh \<Rightarrow>
               (let c = dict_set (chains self) trace_id fresh in
                (Inr fresh,
                 enforce_size (self\<lparr> chains := c,
                                     last_refresh := dict_set (last_refresh self) trace_id now,
                                     total_cached := (\<Sum>v \<leftarrow> map snd c. int (length v)) \<rparr>)))))"

section \<open>\<^verbatim>\<open>load_receipt_store\<close>, the selector\<close>

text \<open>
  \<open>env\<close> is \<^verbatim>\<open>os.getenv\<close>; \<open>construct\<close> is \<^verbatim>\<open>FirestoreReceiptStore(project)\<close>, which raises when
  the client library is missing or the client cannot be built. \<^verbatim>\<open>str.lower\<close> is taken on
  the characters below U+0100.
\<close>

datatype receipt_store = Plain base_store | Cached CachingReceiptStore

definition lower_char :: "char \<Rightarrow> char" where
  "lower_char c =
     (let n = (of_char c :: nat)
      in if (65 \<le> n \<and> n \<le> 90) \<or> (192 \<le> n \<and> n \<le> 222 \<and> n \<noteq> 215) then char_of (n + 32) else c)"

definition lower :: "string \<Rightarrow> string" where
  "lower s = map lower_char s"

definition load_receipt_store ::
  "pylib \<Rightarrow> (string \<Rightarrow> pyerr + FirestoreReceiptStore) \<Rightarrow> (string \<rightharpoonup> string) \<Rightarrow> receipt_store"
where
  "load_receipt_store L construct env =
     (case or_str (env ''FIRESTORE_PROJECT'') None of
        Some project \<Rightarrow>
          (case construct project of
             Inr st \<Rightarrow> Plain (RemoteStore st)
           | Inl _ \<Rightarrow> Plain (FileStore (ReceiptStore_init (int_of_str L) env None None)))
      | None \<Rightarrow>
          (let base_store = FileStore (ReceiptStore_init (int_of_str L) env None None) in
           if lower (case env ''ODIN_RECEIPT_CACHE'' of None \<Rightarrow> [] | Some v \<Rightarrow> v)
                \<in> {''1'', ''true'', ''yes'', ''on''}
           then Cached (CachingReceiptStore_init L env base_store)
           else Plain base_store))"

section \<open>The dicts of \<^verbatim>\<open>add\<close> as objects\<close>

text \<open>
  To say what \<^verbatim>\<open>add\<close> does to the dict that the caller passes, the dicts are objects in
  a heap: a reference is an index into the list of the objects allocated so far.
  \<^verbatim>\<open>dict(r)\<close> allocates a new object, \<^verbatim>\<open>r2[k] = v\<close> updates the object \<open>r2\<close> in place. The
  reference \<open>r\<close> that the caller passes is one of the heap (\<open>r < length h\<close>).
\<close>

type_synonym ref = nat
type_synonym heap = "dict list"

definition ReceiptStore_add_obj ::
  "(string \<Rightarrow> string) \<Rightarrow> (string \<Rightarrow> pyerr + datetime) \<Rightarrow> int \<Rightarrow> ReceiptStore \<Rightarrow> filesystem
     \<Rightarrow> heap \<Rightarrow> ref \<Rightarrow> pyerr + (ref \<times> heap \<times> filesystem)"
where
  "ReceiptStore_add_obj H fromiso now self fs h r =
     (case surviving_lines fromiso now self fs of
        Inl e \<Rightarrow> Inl e
      | Inr lines \<Rightarrow>
          (case last_hash lines of
             Inl e \<Rightarrow> Inl e
           | Inr prev_hash \<Rightarrow>
               (let r2 = length h;
                    h = h @ [dict_copy (h ! r)];
                    h = h[r2 := dict_set (h ! r2) ''prev_receipt_hash'' prev_hash];
                    rh = sha256_cid H
                           (canonical_json (JDict (filter (\<lambda>(k, v). k \<noteq> ''receipt_hash'') (h ! r2))));
                    h = h[r2 := dict_set (h ! r2) ''receipt_hash'' (JStr rh)];
                    lines = lines @ [json_dumps (JDict (h ! r2))]
                in case write_lines self lines fs of
                     Inl e \<Rightarrow> Inl e
                   | Inr fs' \<Rightarrow> Inr (r2, h, fs'))))"

definition FirestoreReceiptStore_add_obj ::
  "(string \<Rightarrow> string) \<Rightarrow> (dict list \<Rightarrow> dict list) \<Rightarrow> remote
     \<Rightarrow> heap \<Rightarrow> ref \<Rightarrow> pyerr + (ref \<times> heap \<times> remote)"
where
  "FirestoreReceiptStore_add_obj H newest rem h r =
     (let prev_hash = latest_receipt_hash newest rem;
          r2 = length h;
          h = h @ [dict_copy (h ! r)];
          h = h[r2 := dict_set (h ! r2) ''prev_receipt_hash'' prev_hash];
          rh = sha256_cid H
                 (canonical_json (JDict (filter (\<lambda>(k, v). k \<noteq> ''receipt_hash'') (h ! r2))));
          h = h[r2 := dict_set (h ! r2) ''receipt_hash'' (JStr rh)]
      in if insert_ok rem then Inr (r2, h, rem\<lparr>documents := documents rem @ [h ! r2]\<rparr>)
         else Inl RuntimeError)"

section \<open>Two calls of \<^verbatim>\<open>add\<close> at once\<close>

text \<open>
  \<^verbatim>\<open>ReceiptStore.add\<close> holds no lock. It reads the file in its first statement and
  rewrites it in its last one; \<open>add_compute\<close> is the call up to the rewrite, with the
  receipt and the lines that it is about to write. In \<open>interleaved_adds\<close> two calls
  have both read the log before either rewrites it; each reads the clock itself
  (\<open>now_a\<close>, \<open>now_b\<close>), and the first caller writes first.
\<close>

definition add_compute ::
  "(string \<Rightarrow> string) \<Rightarrow> (string \<Rightarrow> pyerr + datetime) \<Rightarrow> int \<Rightarrow> ReceiptStore \<Rightarrow> filesystem \<Rightarrow> dict
     \<Rightarrow> pyerr + (dict \<times> string list)"
where
  "add_compute H fromiso now self fs r =
     (case surviving_lines fromiso now self fs of
        Inl e \<Rightarrow> Inl e
      | Inr lines \<Rightarrow>
          (case last_hash lines of
             Inl e \<Rightarrow> Inl e
           | Inr prev_hash \<Rightarrow>
               (let r2 = dict_copy r;
                    r2 = dict_set r2 ''prev_receipt_hash'' prev_hash;
                    rh = sha256_cid H
                           (canonical_json (JDict (filter (\<lambda>(k, v). k \<noteq> ''receipt_hash'') r2)));
                    r2 = dict_set r2 ''receipt_hash'' (JStr rh);
                    lines = lines @ [json_dumps (JDict r2)]
                in Inr (r2, lines))))"

definition interleaved_adds ::
  "(string \<Rightarrow> string) \<Rightarrow> (string \<Rightarrow> pyerr + datetime) \<Rightarrow> int \<Rightarrow> int \<Rightarrow> ReceiptStore \<Rightarrow> filesystem
     \<Rightarrow> dict \<Rightarrow> dict \<Rightarrow> pyerr + (dict \<times> dict \<times> filesystem)"
where
  "interleaved_adds H fromiso now_a now_b self fs ra rb =
     (case add_compute H fromiso now_a self fs ra of
        Inl e \<Rightarrow> Inl e
      | Inr (a, lines_a) \<Rightarrow>
          (case add_compute H fromiso now_b self fs rb of
             Inl e \<Rightarrow> Inl e
           | Inr (b, lines_b) \<Rightarrow>
               (case write_lines self lines_a fs of
                  Inl e \<Rightarrow> Inl e
                | Inr fs1 \<Rightarrow>
                    (case write_lines self lines_b fs1 of
                       Inl e \<Rightarrow> Inl e
                     | Inr fs2 \<Rightarrow> Inr (a, b, fs2)))))"

section \<open>Sorted by hop and timestamp\<close>

text \<open>
  The order that the specification names: ascending by the pair of the hop index, an
  integer, and the timestamp, a string. A record has such a key when its \<^verbatim>\<open>hop\<close> is an
  \<^verbatim>\<open>int\<close> or missing (then 0) and its \<^verbatim>\<open>ts\<close> is a \<^verbatim>\<open>str\<close> or missing (then empty).
\<close>

definition typed_key :: "dict \<Rightarrow> bool" where
  "typed_key x = (case sort_key_of x of (JInt i, JStr s) \<Rightarrow> True | _ \<Rightarrow> False)"

definition key_of :: "dict \<Rightarrow> int \<times> string" where
  "key_of x = (case sort_key_of x of (JInt i, JStr s) \<Rightarrow> (i, s) | _ \<Rightarrow> (0, []))"

definition key_le :: "int \<times> string \<Rightarrow> int \<times> string \<Rightarrow> bool" where
  "key_le p q = (fst p < fst q \<or> (fst p = fst q \<and> snd p \<le> snd q))"

definition sorted_by_key :: "dict list \<Rightarrow> bool" where
  "sorted_by_key xs = sorted_wrt (\<lambda>x y. key_le (key_of x) (key_of y)) xs"

text \<open>The records of the log with a given correlation key, in the order of the lines.\<close>

definition matching_records :: "string \<Rightarrow> string list \<Rightarrow> dict list" where
  "matching_records trace_id lines =
     List.map_filter
       (\<lambda>ln. case json_loads ln of
                Inr (JDict obj) \<Rightarrow> if dict_get obj ''trace_id'' = JStr trace_id then Some obj else None
              | _ \<Rightarrow> None)
       lines"

section \<open>Same content\<close>

text \<open>
  Two values have the same content when they are equal up to the order in which the
  fields of their dicts were inserted.
\<close>

fun same_content :: "json \<Rightarrow> json \<Rightarrow> bool" where
  "same_content (JDict d) (JDict e) =
     (distinct (map fst d) \<and> distinct (map fst e) \<and> set (map fst d) = set (map fst e) \<and>
      (\<forall>(k, v) \<in> set d. \<forall>(k', v') \<in> set e. k = k' \<longrightarrow> same_content v v'))"
| "same_content (JList xs) (JList ys) = list_all2 same_content xs ys"
| "same_content a b = (a = b)"

section \<open>The receipt hash as the specification words it\<close>

text \<open>
  The content address of the canonical encoding of all the fields of the record, with
  the hash of the predecessor attached and without the field \<^verbatim>\<open>receipt_hash\<close>.
\<close>

definition expected_receipt_hash :: "(string \<Rightarrow> string) \<Rightarrow> dict \<Rightarrow> json \<Rightarrow> string" where
  "expected_receipt_hash H r prev =
     sha256_cid H (canonical_json
       (JDict (filter (\<lambda>(k, v). k \<noteq> ''receipt_hash'') (dict_set r ''prev_receipt_hash'' prev))))"

section \<open>Sample library functions\<close>

text \<open>
  Stand-ins for the library parameters, for the statements about concrete runs: a digest
  of four bytes, a parser that knows two timestamps (midnight of 2020-01-01, written
  without and with the UTC offset), a newest-document query that answers with the
  document inserted last, and an \<^verbatim>\<open>int\<close> that rejects every string.
\<close>

definition sample_lib :: pylib where
  "sample_lib =
     \<lparr> sha256 = (\<lambda>bs. take 4 bs),
       iso_parse = (\<lambda>s. if s = ''2020-01-01T00:00:00'' then Inr (Naive 1577836800000000)
                          else if s = ''2020-01-01T00:00:00+00:00'' then Inr (Aware 1577836800000000)
                          else Inl ValueError),
       newest_doc = (\<lambda>ds. if ds = [] then [] else [last ds]),
       int_of_str = (\<lambda>s. Inl ValueError) \<rparr>"

section \<open>The canonical encoder\<close>

lemma map_items_eq:
  assumes "map fst xs = map fst ys" and "distinct (map fst xs)"
    and "\<And>k v v'. (k, v) \<in> set xs \<Longrightarrow> (k, v') \<in> set ys \<Longrightarrow> f k v = f k v'"
  shows "map (\<lambda>(k, v). f k v) xs = map (\<lambda>(k, v). f k v) ys"
  using assms
proof (induction xs arbitrary: ys)
  case Nil
  then show ?case by simp
next
  case (Cons x xs)
  then obtain y ys' where ys: "ys = y # ys'" by (cases ys) auto
  with Cons.prems have "fst x = fst y" "map fst xs = map fst ys'" by auto
  moreover have "f (fst x) (snd x) = f (fst x) (snd y)"
    using Cons.prems(3)[of "fst x" "snd x" "snd y"] ys \<open>fst x = fst y\<close> by (cases y) auto
  moreover have "map (\<lambda>(k, v). f k v) xs = map (\<lambda>(k, v). f k v) ys'"
    using Cons.IH[OF \<open>map fst xs = map fst ys'\<close>] Cons.prems ys by auto
  ultimately show ?case using ys by (cases x; cases y) auto
qed

lemma sorted_keys_eq:
  assumes "distinct (map fst d)" "distinct (map fst e)" "set (map fst d) = set (map fst e)"
  shows "map fst (sort_key fst d) = map fst (sort_key fst e)"
proof -
  have "sorted (map fst (sort_key fst d))" "sorted (map fst (sort_key fst e))"
    by simp_all
  moreover have "distinct (map fst (sort_key fst d))" "distinct (map fst (sort_key fst e))"
    using assms by (simp_all add: distinct_map)
  moreover have "set (map fst (sort_key fst d)) = set (map fst (sort_key fst e))"
    using assms(3) by simp
  ultimately show ?thesis by (metis sorted_distinct_set_unique)
qed

lemma dumps_same_content:
  "same_content a b \<Longrightarrow> dumps True isep ksep a = dumps True isep ksep b"
proof (induction a b rule: same_content.induct)
  case (1 d e)
  let ?f = "\<lambda>k v. encode_basestring k @ ksep @ dumps True isep ksep v"
  from 1(2) have dd: "distinct (map fst d)" and de: "distinct (map fst e)"
    and ks: "set (map fst d) = set (map fst e)"
    and rel: "\<And>k v v'. (k, v) \<in> set d \<Longrightarrow> (k, v') \<in> set e \<Longrightarrow> same_content v v'"
    by auto
  have "map (\<lambda>(k, v). ?f k v) (sort_key fst d) = map (\<lambda>(k, v). ?f k v) (sort_key fst e)"
  proof (rule map_items_eq)
    show "map fst (sort_key fst d) = map fst (sort_key fst e)"
      using dd de ks by (rule sorted_keys_eq)
    show "distinct (map fst (sort_key fst d))" using dd by (simp add: distinct_map)
    fix k v v'
    assume "(k, v) \<in> set (sort_key fst d)" "(k, v') \<in> set (sort_key fst e)"
    then have m: "(k, v) \<in> set d" "(k, v') \<in> set e" by simp_all
    then have "dumps True isep ksep v = dumps True isep ksep v'"
      using 1(1)[of "(k, v)" k v "(k, v')" k v'] rel by auto
    then show "?f k v = ?f k v'" by simp
  qed
  then show ?case by simp
next
  case (2 xs ys)
  then have "list_all2 same_content xs ys" by simp
  then have "map (dumps True isep ksep) xs = map (dumps True isep ksep) ys"
    using 2(1)
    by (induction xs ys rule: list_all2_induct) auto
  then show ?case by simp
qed simp_all

lemma hexchar_lower: "hexchar n \<in> set ''0123456789abcdef''"
  unfolding hexchar_def by (rule nth_mem) simp

lemma hexdigest_chars: "set (hexdigest bs) \<subseteq> set ''0123456789abcdef''"
  unfolding hexdigest_def using hexchar_lower by (induction bs) auto

lemma hexdigest_length: "length (hexdigest bs) = 2 * length bs"
  unfolding hexdigest_def by (induction bs) auto

text \<open>
  C8. The canonical encoder does not depend on the insertion order of the fields, at any
  depth: two values with the same content have the same canonical bytes, hence the same
  content address; and the content address is the prefix \<^verbatim>\<open>sha256:\<close> followed by the
  digest in lowercase hexadecimal digits, two for each byte.
\<close>

theorem canonical_hash_stable:
  assumes "same_content a b"
  shows "canonical_json a = canonical_json b
       \<and> sha256_cid H (canonical_json a) = sha256_cid H (canonical_json b)
       \<and> sha256_cid H (canonical_json a) = ''sha256:'' @ hexdigest (H (canonical_json a))
       \<and> set (hexdigest (H (canonical_json a))) \<subseteq> set ''0123456789abcdef''
       \<and> length (hexdigest (H (canonical_json a))) = 2 * length (H (canonical_json a))"
proof -
  have "canonical_json a = canonical_json b"
    unfolding canonical_json_def using dumps_same_content[OF assms] by simp
  then show ?thesis
    using hexdigest_chars hexdigest_length by (simp add: sha256_cid_def)
qed

theorem canonical_hash_stable_witness:
  "same_content
     (JDict [(''trace_id'', JStr ''t''), (''hop'', JInt 0), (''policy'', JDict [(''engine'', JStr ''HEL''), (''allowed'', JBool True)])])
     (JDict [(''policy'', JDict [(''allowed'', JBool True), (''engine'', JStr ''HEL'')]), (''hop'', JInt 0), (''trace_id'', JStr ''t'')])
   \<and> canonical_json (JDict [(''trace_id'', JStr ''t''), (''hop'', JInt 0), (''policy'', JDict [(''engine'', JStr ''HEL''), (''allowed'', JBool True)])])
     = canonical_json (JDict [(''policy'', JDict [(''allowed'', JBool True), (''engine'', JStr ''HEL'')]), (''hop'', JInt 0), (''trace_id'', JStr ''t'')])"
proof -
  have h: "same_content
     (JDict [(''trace_id'', JStr ''t''), (''hop'', JInt 0), (''policy'', JDict [(''engine'', JStr ''HEL''), (''allowed'', JBool True)])])
     (JDict [(''policy'', JDict [(''allowed'', JBool True), (''engine'', JStr ''HEL'')]), (''hop'', JInt 0), (''trace_id'', JStr ''t'')])"
    by code_simp
  from canonical_hash_stable[OF h] h show ?thesis by blast
qed

section \<open>Receipt hashes and the selector\<close>

lemma dict_get_set_same: "dict_get (dict_set d k v) k = v"
  by (induction d) (auto simp: dict_get_def)

lemma dict_get_set_other: "k' \<noteq> k \<Longrightarrow> dict_get (dict_set d k v) k' = dict_get d k'"
  by (induction d) (auto simp: dict_get_def)

lemma filter_set_dropped:
  "filter (\<lambda>(k, v). k \<noteq> x) (dict_set d x v) = filter (\<lambda>(k, v). k \<noteq> x) d"
  by (induction d) auto

lemma filter_set_set:
  "x \<noteq> y \<Longrightarrow>
   filter (\<lambda>(k, v). k \<noteq> x) (dict_set (dict_set d x v) y w) = filter (\<lambda>(k, v). k \<noteq> x) (dict_set d y w)"
  by (induction d) (auto simp: filter_set_dropped)

lemma ReceiptStore_add_result:
  assumes "ReceiptStore_add H fromiso now self fs r = Inr (a, fs')"
  shows "a = dict_set (dict_set r ''prev_receipt_hash'' (dict_get a ''prev_receipt_hash''))
               ''receipt_hash'' (JStr (expected_receipt_hash H r (dict_get a ''prev_receipt_hash'')))"
  using assms
  by (auto simp: ReceiptStore_add_def Let_def dict_copy_def expected_receipt_hash_def
      dict_get_set_same dict_get_set_other split: sum.splits if_splits)

lemma FirestoreReceiptStore_add_result:
  assumes "FirestoreReceiptStore_add H newest rem r = Inr (b, rem')"
  shows "b = dict_set (dict_set r ''prev_receipt_hash'' (dict_get b ''prev_receipt_hash''))
               ''receipt_hash'' (JStr (expected_receipt_hash H r (dict_get b ''prev_receipt_hash'')))"
  using assms
  by (auto simp: FirestoreReceiptStore_add_def Let_def dict_copy_def expected_receipt_hash_def
      dict_get_set_same dict_get_set_other split: sum.splits if_splits)

text \<open>
  C6. When the file-backed \<^verbatim>\<open>add\<close> and the remote \<^verbatim>\<open>add\<close> return for the same record with
  the same predecessor hash, their receipts carry the same \<^verbatim>\<open>receipt_hash\<close>: the content
  address of the canonical encoding of the fields of the record with
  \<^verbatim>\<open>prev_receipt_hash\<close> attached and \<^verbatim>\<open>receipt_hash\<close> left out. A \<^verbatim>\<open>receipt_hash\<close> that the
  caller supplies does not change it.
\<close>

theorem receipt_hash_backend_independent:
  assumes "ReceiptStore_add H fromiso now self fs r = Inr (a, fs')"
    and "FirestoreReceiptStore_add H newest rem r = Inr (b, rem')"
    and "dict_get a ''prev_receipt_hash'' = dict_get b ''prev_receipt_hash''"
  shows "dict_get a ''receipt_hash'' = dict_get b ''receipt_hash''
       \<and> dict_get a ''receipt_hash''
           = JStr (expected_receipt_hash H r (dict_get a ''prev_receipt_hash''))
       \<and> expected_receipt_hash H (dict_set r ''receipt_hash'' x) p = expected_receipt_hash H r p"
proof -
  note ra = ReceiptStore_add_result[OF assms(1)]
  note rb = FirestoreReceiptStore_add_result[OF assms(2)]
  have 1: "dict_get a ''receipt_hash''
           = JStr (expected_receipt_hash H r (dict_get a ''prev_receipt_hash''))"
    by (subst ra) (simp add: dict_get_set_same)
  have 2: "dict_get b ''receipt_hash''
           = JStr (expected_receipt_hash H r (dict_get b ''prev_receipt_hash''))"
    by (subst rb) (simp add: dict_get_set_same)
  have 3: "expected_receipt_hash H (dict_set r ''receipt_hash'' x) p = expected_receipt_hash H r p"
    by (simp add: expected_receipt_hash_def filter_set_set)
  from 1 2 3 assms(3) show ?thesis by simp
qed

theorem receipt_hash_backend_independent_witness:
  "ReceiptStore_add (\<lambda>bs. take 2 bs) (\<lambda>s. Inl ValueError) 0
        \<lparr>path = ''receipts.log.jsonl'', max_age_seconds = 0\<rparr> \<lparr>nodes = Map.empty, denied = Map.empty\<rparr>
        [(''trace_id'', JStr ''t''), (''receipt_hash'', JStr ''forged'')]
     = Inr ([(''trace_id'', JStr ''t''), (''receipt_hash'', JStr ''sha256:7b22''), (''prev_receipt_hash'', JNull)],
            \<lparr>nodes = [''receipts.log.jsonl'' \<mapsto> Text (json_dumps (JDict [(''trace_id'', JStr ''t''), (''receipt_hash'', JStr ''sha256:7b22''), (''prev_receipt_hash'', JNull)]) @ [CHR 0x0A])], denied = Map.empty\<rparr>)
   \<and> FirestoreReceiptStore_add (\<lambda>bs. take 2 bs) (\<lambda>ds. []) \<lparr>documents = [], query_ok = True, insert_ok = True\<rparr>
        [(''trace_id'', JStr ''t''), (''receipt_hash'', JStr ''forged'')]
     = Inr ([(''trace_id'', JStr ''t''), (''receipt_hash'', JStr ''sha256:7b22''), (''prev_receipt_hash'', JNull)],
            \<lparr>documents = [[(''trace_id'', JStr ''t''), (''receipt_hash'', JStr ''sha256:7b22''), (''prev_receipt_hash'', JNull)]], query_ok = True, insert_ok = True\<rparr>)
   \<and> JStr ''sha256:7b22'' = JStr (expected_receipt_hash (\<lambda>bs. take 2 bs) [(''trace_id'', JStr ''t''), (''receipt_hash'', JStr ''forged'')] JNull)"
proof -
  have a: "ReceiptStore_add (\<lambda>bs. take 2 bs) (\<lambda>s. Inl ValueError) 0
        \<lparr>path = ''receipts.log.jsonl'', max_age_seconds = 0\<rparr> \<lparr>nodes = Map.empty, denied = Map.empty\<rparr>
        [(''trace_id'', JStr ''t''), (''receipt_hash'', JStr ''forged'')]
     = Inr ([(''trace_id'', JStr ''t''), (''receipt_hash'', JStr ''sha256:7b22''), (''prev_receipt_hash'', JNull)],
            \<lparr>nodes = [''receipts.log.jsonl'' \<mapsto> Text (json_dumps (JDict [(''trace_id'', JStr ''t''), (''receipt_hash'', JStr ''sha256:7b22''), (''prev_receipt_hash'', JNull)]) @ [CHR 0x0A])], denied = Map.empty\<rparr>)"
    by (simp add: Let_def ReceiptStore_add_def read_lines_def surviving_lines_def last_hash_def prune_by_age_def dict_copy_def
        sha256_cid_def canonical_json_def encode_utf8_def utf8_char_def encode_basestring_def
        esc_char_def hexdigest_def hexchar_def write_lines_def)
  have b: "FirestoreReceiptStore_add (\<lambda>bs. take 2 bs) (\<lambda>ds. []) \<lparr>documents = [], query_ok = True, insert_ok = True\<rparr>
        [(''trace_id'', JStr ''t''), (''receipt_hash'', JStr ''forged'')]
     = Inr ([(''trace_id'', JStr ''t''), (''receipt_hash'', JStr ''sha256:7b22''), (''prev_receipt_hash'', JNull)],
            \<lparr>documents = [[(''trace_id'', JStr ''t''), (''receipt_hash'', JStr ''sha256:7b22''), (''prev_receipt_hash'', JNull)]], query_ok = True, insert_ok = True\<rparr>)"
    by (simp add: Let_def FirestoreReceiptStore_add_def latest_receipt_hash_def dict_copy_def
        sha256_cid_def canonical_json_def encode_utf8_def utf8_char_def encode_basestring_def
        esc_char_def hexdigest_def hexchar_def)
  have c: "dict_get [(''trace_id'', JStr ''t''), (''receipt_hash'', JStr ''sha256:7b22''), (''prev_receipt_hash'', JNull)] ''prev_receipt_hash''
         = dict_get [(''trace_id'', JStr ''t''), (''receipt_hash'', JStr ''sha256:7b22''), (''prev_receipt_hash'', JNull)] ''prev_receipt_hash''"
    by simp
  from receipt_hash_backend_independent[OF a b c] a b show ?thesis
    by (simp add: dict_get_def)
qed

text \<open>
  C3. With a remote project configured and the caching flag set, the selector returns
  the remote store as it is, not wrapped in the cache; and the file store that replaces
  a remote store that cannot be built is not wrapped either. Without a remote project
  the flag wraps the file store.
\<close>

theorem load_receipt_store_remote_uncached:
  "load_receipt_store L (\<lambda>p. Inr \<lparr>project_id = p, collection = ''receipts''\<rparr>)
       [''FIRESTORE_PROJECT'' \<mapsto> ''demo-proj'', ''ODIN_RECEIPT_CACHE'' \<mapsto> ''1'']
     = Plain (RemoteStore \<lparr>project_id = ''demo-proj'', collection = ''receipts''\<rparr>)
   \<and> load_receipt_store L (\<lambda>p. Inl RuntimeError)
       [''FIRESTORE_PROJECT'' \<mapsto> ''demo-proj'', ''ODIN_RECEIPT_CACHE'' \<mapsto> ''1'']
     = Plain (FileStore (ReceiptStore_init (int_of_str L)
         [''FIRESTORE_PROJECT'' \<mapsto> ''demo-proj'', ''ODIN_RECEIPT_CACHE'' \<mapsto> ''1''] None None))
   \<and> load_receipt_store L construct [''ODIN_RECEIPT_CACHE'' \<mapsto> ''1'']
     = Cached (CachingReceiptStore_init L [''ODIN_RECEIPT_CACHE'' \<mapsto> ''1'']
         (FileStore (ReceiptStore_init (int_of_str L) [''ODIN_RECEIPT_CACHE'' \<mapsto> ''1''] None None)))"
  by (simp add: load_receipt_store_def or_str_def lower_def lower_char_def)

section \<open>The cache\<close>

lemma store_add_trace_id:
  assumes "store_add L now st w r = Inr (added, w')"
  shows "dict_get added ''trace_id'' = dict_get r ''trace_id''"
proof (cases st)
  case (FileStore self)
  with assms obtain fs' where
    "ReceiptStore_add (sha256 L) (iso_parse L) now self (files w) r = Inr (added, fs')"
    by (auto simp: store_add_def split: sum.splits)
  from ReceiptStore_add_result[OF this] show ?thesis
    by (rule ssubst) (simp add: dict_get_set_other)
next
  case (RemoteStore self)
  with assms obtain rem' where
    "FirestoreReceiptStore_add (sha256 L) (newest_doc L) (cloud w) r = Inr (added, rem')"
    by (auto simp: store_add_def split: sum.splits)
  from FirestoreReceiptStore_add_result[OF this] show ?thesis
    by (rule ssubst) (simp add: dict_get_set_other)
qed

lemma map_of_filter_key: "map_of (filter (\<lambda>(k, v). k \<noteq> x) d) x = None"
  by (induction d) auto

lemma dict_pop_str: "dict_pop d (JStr s) = Inr (filter (\<lambda>(k, v). k \<noteq> s) d)"
  by (simp add: dict_pop_def)

text \<open>
  C4. When \<^verbatim>\<open>add\<close> through the cache returns for a record whose \<^verbatim>\<open>trace_id\<close> is a string
  \<open>K\<close> that is not empty, the cache holds no snapshot for \<open>K\<close> afterwards, and the next
  \<^verbatim>\<open>chain(K)\<close> is what the wrapped store answers on the log with the new record,
  whatever was cached and however fresh it was. (For the empty key the guard
  \<^verbatim>\<open>if trace_id:\<close> skips the eviction: \<open>cache_add_empty_key_stale\<close>.)
\<close>

theorem cache_add_invalidates:
  assumes "K \<noteq> []"
    and "dict_get r ''trace_id'' = JStr K"
    and "CachingReceiptStore_add L now self w r = (Inr added, self', w')"
  shows "store_add L now (store self) w r = Inr (added, w')
       \<and> map_of (chains self') K = None
       \<and> store self' = store self
       \<and> fst (CachingReceiptStore_chain now' self' w' K) = store_chain (store self) w' K"
proof -
  from assms(3) obtain a w1 where sa: "store_add L now (store self) w r = Inr (a, w1)"
    by (auto simp: CachingReceiptStore_add_def split: sum.splits)
  have tid: "dict_get a ''trace_id'' = JStr K"
    using store_add_trace_id[OF sa] assms(2) by simp
  from assms(3) sa tid assms(1)
  have res: "added = a" "w' = w1"
    "self' = self\<lparr>chains := filter (\<lambda>(k, v). k \<noteq> K) (chains self),
                  last_refresh := filter (\<lambda>(k, v). k \<noteq> K) (last_refresh self)\<rparr>"
    by (simp_all add: CachingReceiptStore_add_def dict_pop_str)
  have none: "map_of (chains self') K = None"
    by (simp add: res map_of_filter_key)
  have st: "store self' = store self" by (simp add: res)
  have "fst (CachingReceiptStore_chain now' self' w' K) = store_chain (store self') w' K"
    using none by (simp add: CachingReceiptStore_chain_def Let_def split: sum.splits)
  with sa res none st show ?thesis by simp
qed

theorem cache_add_invalidates_witness:
  "''t'' \<noteq> []
   \<and> dict_get [(''trace_id'', JStr ''t''), (''hop'', JInt 0)] ''trace_id'' = JStr ''t''
   \<and> CachingReceiptStore_add sample_lib 1 \<lparr>store = FileStore \<lparr>path = ''log'', max_age_seconds = 0\<rparr>, ttl_seconds = 300, max_size = 1000, chains = [(''t'', [])], last_refresh = [(''t'', 0)], total_cached = 0\<rparr> \<lparr>files = \<lparr>nodes = Map.empty, denied = Map.empty\<rparr>, cloud = \<lparr>documents = [], query_ok = True, insert_ok = True\<rparr>\<rparr> [(''trace_id'', JStr ''t''), (''hop'', JInt 0)]
       = (Inr [(''trace_id'', JStr ''t''), (''hop'', JInt 0), (''prev_receipt_hash'', JNull), (''receipt_hash'', JStr ''sha256:7b22686f'')], \<lparr>store = FileStore \<lparr>path = ''log'', max_age_seconds = 0\<rparr>, ttl_seconds = 300, max_size = 1000, chains = [], last_refresh = [], total_cached = 0\<rparr>, \<lparr>files = \<lparr>nodes = [''log'' \<mapsto> Text (json_dumps (JDict [(''trace_id'', JStr ''t''), (''hop'', JInt 0), (''prev_receipt_hash'', JNull), (''receipt_hash'', JStr ''sha256:7b22686f'')]) @ [CHR 0x0A])], denied = Map.empty\<rparr>, cloud = \<lparr>documents = [], query_ok = True, insert_ok = True\<rparr>\<rparr>)
   \<and> fst (CachingReceiptStore_chain 2 \<lparr>store = FileStore \<lparr>path = ''log'', max_age_seconds = 0\<rparr>, ttl_seconds = 300, max_size = 1000, chains = [], last_refresh = [], total_cached = 0\<rparr> \<lparr>files = \<lparr>nodes = [''log'' \<mapsto> Text (json_dumps (JDict [(''trace_id'', JStr ''t''), (''hop'', JInt 0), (''prev_receipt_hash'', JNull), (''receipt_hash'', JStr ''sha256:7b22686f'')]) @ [CHR 0x0A])], denied = Map.empty\<rparr>, cloud = \<lparr>documents = [], query_ok = True, insert_ok = True\<rparr>\<rparr> ''t'') = Inr [[(''trace_id'', JStr ''t''), (''hop'', JInt 0), (''prev_receipt_hash'', JNull), (''receipt_hash'', JStr ''sha256:7b22686f'')]]"
proof -
  have k: "''t'' \<noteq> []" by simp
  have t: "dict_get [(''trace_id'', JStr ''t''), (''hop'', JInt 0)] ''trace_id'' = JStr ''t''" by (simp add: dict_get_def)
  have e: "CachingReceiptStore_add sample_lib 1 \<lparr>store = FileStore \<lparr>path = ''log'', max_age_seconds = 0\<rparr>, ttl_seconds = 300, max_size = 1000, chains = [(''t'', [])], last_refresh = [(''t'', 0)], total_cached = 0\<rparr> \<lparr>files = \<lparr>nodes = Map.empty, denied = Map.empty\<rparr>, cloud = \<lparr>documents = [], query_ok = True, insert_ok = True\<rparr>\<rparr> [(''trace_id'', JStr ''t''), (''hop'', JInt 0)]
       = (Inr [(''trace_id'', JStr ''t''), (''hop'', JInt 0), (''prev_receipt_hash'', JNull), (''receipt_hash'', JStr ''sha256:7b22686f'')], \<lparr>store = FileStore \<lparr>path = ''log'', max_age_seconds = 0\<rparr>, ttl_seconds = 300, max_size = 1000, chains = [], last_refresh = [], total_cached = 0\<rparr>, \<lparr>files = \<lparr>nodes = [''log'' \<mapsto> Text (json_dumps (JDict [(''trace_id'', JStr ''t''), (''hop'', JInt 0), (''prev_receipt_hash'', JNull), (''receipt_hash'', JStr ''sha256:7b22686f'')]) @ [CHR 0x0A])], denied = Map.empty\<rparr>, cloud = \<lparr>documents = [], query_ok = True, insert_ok = True\<rparr>\<rparr>)"
    by (simp add: CachingReceiptStore_add_def store_add_def ReceiptStore_add_def Let_def read_lines_def surviving_lines_def last_hash_def prune_by_age_def dict_copy_def sha256_cid_def canonical_json_def encode_utf8_def utf8_char_def encode_basestring_def esc_char_def hexdigest_def hexchar_def write_lines_def sample_lib_def dict_get_def dict_pop_def str_int_def str_nat.simps)
  have c: "store_chain (FileStore \<lparr>path = ''log'', max_age_seconds = 0\<rparr>) \<lparr>files = \<lparr>nodes = [''log'' \<mapsto> Text (json_dumps (JDict [(''trace_id'', JStr ''t''), (''hop'', JInt 0), (''prev_receipt_hash'', JNull), (''receipt_hash'', JStr ''sha256:7b22686f'')]) @ [CHR 0x0A])], denied = Map.empty\<rparr>, cloud = \<lparr>documents = [], query_ok = True, insert_ok = True\<rparr>\<rparr> ''t'' = Inr [[(''trace_id'', JStr ''t''), (''hop'', JInt 0), (''prev_receipt_hash'', JNull), (''receipt_hash'', JStr ''sha256:7b22686f'')]]"
    by code_simp
  from cache_add_invalidates[OF k t e, of 2] k t e c show ?thesis by simp
qed

theorem cache_add_empty_key_stale:
  "CachingReceiptStore_add sample_lib 1 \<lparr>store = FileStore \<lparr>path = ''log'', max_age_seconds = 0\<rparr>, ttl_seconds = 300, max_size = 1000, chains = [('''', [])], last_refresh = [('''', 0)], total_cached = 0\<rparr> \<lparr>files = \<lparr>nodes = Map.empty, denied = Map.empty\<rparr>, cloud = \<lparr>documents = [], query_ok = True, insert_ok = True\<rparr>\<rparr> [(''trace_id'', JStr ''''), (''hop'', JInt 0)]
       = (Inr [(''trace_id'', JStr ''''), (''hop'', JInt 0), (''prev_receipt_hash'', JNull), (''receipt_hash'', JStr ''sha256:7b22686f'')], \<lparr>store = FileStore \<lparr>path = ''log'', max_age_seconds = 0\<rparr>, ttl_seconds = 300, max_size = 1000, chains = [('''', [])], last_refresh = [('''', 0)], total_cached = 0\<rparr>, \<lparr>files = \<lparr>nodes = [''log'' \<mapsto> Text (json_dumps (JDict [(''trace_id'', JStr ''''), (''hop'', JInt 0), (''prev_receipt_hash'', JNull), (''receipt_hash'', JStr ''sha256:7b22686f'')]) @ [CHR 0x0A])], denied = Map.empty\<rparr>, cloud = \<lparr>documents = [], query_ok = True, insert_ok = True\<rparr>\<rparr>)
   \<and> fst (CachingReceiptStore_chain 2 \<lparr>store = FileStore \<lparr>path = ''log'', max_age_seconds = 0\<rparr>, ttl_seconds = 300, max_size = 1000, chains = [('''', [])], last_refresh = [('''', 0)], total_cached = 0\<rparr> \<lparr>files = \<lparr>nodes = [''log'' \<mapsto> Text (json_dumps (JDict [(''trace_id'', JStr ''''), (''hop'', JInt 0), (''prev_receipt_hash'', JNull), (''receipt_hash'', JStr ''sha256:7b22686f'')]) @ [CHR 0x0A])], denied = Map.empty\<rparr>, cloud = \<lparr>documents = [], query_ok = True, insert_ok = True\<rparr>\<rparr> '''') = Inr []
   \<and> store_chain (FileStore \<lparr>path = ''log'', max_age_seconds = 0\<rparr>) \<lparr>files = \<lparr>nodes = [''log'' \<mapsto> Text (json_dumps (JDict [(''trace_id'', JStr ''''), (''hop'', JInt 0), (''prev_receipt_hash'', JNull), (''receipt_hash'', JStr ''sha256:7b22686f'')]) @ [CHR 0x0A])], denied = Map.empty\<rparr>, cloud = \<lparr>documents = [], query_ok = True, insert_ok = True\<rparr>\<rparr> '''' = Inr [[(''trace_id'', JStr ''''), (''hop'', JInt 0), (''prev_receipt_hash'', JNull), (''receipt_hash'', JStr ''sha256:7b22686f'')]]"
proof -
  have e: "CachingReceiptStore_add sample_lib 1 \<lparr>store = FileStore \<lparr>path = ''log'', max_age_seconds = 0\<rparr>, ttl_seconds = 300, max_size = 1000, chains = [('''', [])], last_refresh = [('''', 0)], total_cached = 0\<rparr> \<lparr>files = \<lparr>nodes = Map.empty, denied = Map.empty\<rparr>, cloud = \<lparr>documents = [], query_ok = True, insert_ok = True\<rparr>\<rparr> [(''trace_id'', JStr ''''), (''hop'', JInt 0)]
       = (Inr [(''trace_id'', JStr ''''), (''hop'', JInt 0), (''prev_receipt_hash'', JNull), (''receipt_hash'', JStr ''sha256:7b22686f'')], \<lparr>store = FileStore \<lparr>path = ''log'', max_age_seconds = 0\<rparr>, ttl_seconds = 300, max_size = 1000, chains = [('''', [])], last_refresh = [('''', 0)], total_cached = 0\<rparr>, \<lparr>files = \<lparr>nodes = [''log'' \<mapsto> Text (json_dumps (JDict [(''trace_id'', JStr ''''), (''hop'', JInt 0), (''prev_receipt_hash'', JNull), (''receipt_hash'', JStr ''sha256:7b22686f'')]) @ [CHR 0x0A])], denied = Map.empty\<rparr>, cloud = \<lparr>documents = [], query_ok = True, insert_ok = True\<rparr>\<rparr>)"
    by (simp add: CachingReceiptStore_add_def store_add_def ReceiptStore_add_def Let_def read_lines_def surviving_lines_def last_hash_def prune_by_age_def dict_copy_def sha256_cid_def canonical_json_def encode_utf8_def utf8_char_def encode_basestring_def esc_char_def hexdigest_def hexchar_def write_lines_def sample_lib_def dict_get_def dict_pop_def str_int_def str_nat.simps)
  have h: "fst (CachingReceiptStore_chain 2 \<lparr>store = FileStore \<lparr>path = ''log'', max_age_seconds = 0\<rparr>, ttl_seconds = 300, max_size = 1000, chains = [('''', [])], last_refresh = [('''', 0)], total_cached = 0\<rparr> \<lparr>files = \<lparr>nodes = [''log'' \<mapsto> Text (json_dumps (JDict [(''trace_id'', JStr ''''), (''hop'', JInt 0), (''prev_receipt_hash'', JNull), (''receipt_hash'', JStr ''sha256:7b22686f'')]) @ [CHR 0x0A])], denied = Map.empty\<rparr>, cloud = \<lparr>documents = [], query_ok = True, insert_ok = True\<rparr>\<rparr> '''') = Inr []"
    by (simp add: CachingReceiptStore_chain_def expired_def)
  have c: "store_chain (FileStore \<lparr>path = ''log'', max_age_seconds = 0\<rparr>) \<lparr>files = \<lparr>nodes = [''log'' \<mapsto> Text (json_dumps (JDict [(''trace_id'', JStr ''''), (''hop'', JInt 0), (''prev_receipt_hash'', JNull), (''receipt_hash'', JStr ''sha256:7b22686f'')]) @ [CHR 0x0A])], denied = Map.empty\<rparr>, cloud = \<lparr>documents = [], query_ok = True, insert_ok = True\<rparr>\<rparr> '''' = Inr [[(''trace_id'', JStr ''''), (''hop'', JInt 0), (''prev_receipt_hash'', JNull), (''receipt_hash'', JStr ''sha256:7b22686f'')]]"
    by code_simp
  from e h c show ?thesis by simp
qed

section \<open>What add and chain hand to the caller\<close>












section \<open>The caller's dict, and two calls at once\<close>

text \<open>
  C10. \<^verbatim>\<open>add\<close> does not change the dict of the caller, on either backend: when it returns,
  the receipt is a new object, every object that was in the heap is as it was, and the
  new object is the receipt that \<^verbatim>\<open>add\<close> on the value of the caller's dict gives, which
  is also what is persisted.
\<close>

theorem add_leaves_argument:
  assumes "r < length h"
  shows "(ReceiptStore_add_obj H fromiso now self fs h r = Inr (r2, h', fs') \<longrightarrow>
            r2 \<noteq> r \<and> r2 = length h \<and> take (length h) h' = h \<and> h' ! r = h ! r
            \<and> ReceiptStore_add H fromiso now self fs (h ! r) = Inr (h' ! r2, fs'))
       \<and> (FirestoreReceiptStore_add_obj H newest rem h r = Inr (q2, k', rem') \<longrightarrow>
            q2 \<noteq> r \<and> q2 = length h \<and> take (length h) k' = h \<and> k' ! r = h ! r
            \<and> FirestoreReceiptStore_add H newest rem (h ! r) = Inr (k' ! q2, rem'))"
  using assms
  by (auto simp: ReceiptStore_add_obj_def ReceiptStore_add_def FirestoreReceiptStore_add_obj_def
      FirestoreReceiptStore_add_def Let_def nth_append split: sum.splits if_splits)

lemma ReceiptStore_add_compute:
  "ReceiptStore_add H fromiso now self fs r =
     (case add_compute H fromiso now self fs r of
        Inl e \<Rightarrow> Inl e
      | Inr (r2, lines) \<Rightarrow>
          (case write_lines self lines fs of
             Inl e \<Rightarrow> Inl e
           | Inr fs' \<Rightarrow> Inr (r2, fs')))"
  by (simp add: ReceiptStore_add_def add_compute_def Let_def split: sum.splits)

lemma write_lines_twice:
  "write_lines self l1 fs = Inr fs1 \<Longrightarrow> write_lines self l2 fs1 = write_lines self l2 fs"
  by (auto simp: write_lines_def split: option.splits)

lemma add_compute_prev:
  assumes "add_compute H fromiso now self fs r = Inr (a, lines)"
  shows "\<exists>ls. surviving_lines fromiso now self fs = Inr ls
              \<and> last_hash ls = Inr (dict_get a ''prev_receipt_hash'')"
  using assms
  by (auto simp: add_compute_def Let_def dict_copy_def dict_get_set_same dict_get_set_other
      split: sum.splits)

lemma surviving_lines_no_retention:
  "max_age_seconds self \<le> 0 \<Longrightarrow>
   surviving_lines fromiso now_a self fs = surviving_lines fromiso now_b self fs"
  by (simp add: surviving_lines_def prune_by_age_def split: sum.splits)

text \<open>
  C9. The file-backed \<^verbatim>\<open>add\<close> takes no lock, so its calls are not serialized. When two
  calls have both read the log before either rewrites it, each receipt is the one that
  its call alone would have produced on the log as it was read, so neither links to the
  other; the two carry the same predecessor hash whenever both calls prune the log
  alike, as they always do with retention off; and the log afterwards is the one that
  the later writer alone would have left: the receipt of the earlier writer is lost.
\<close>

theorem interleaved_adds_lose_update:
  assumes "interleaved_adds H fromiso now_a now_b self fs ra rb = Inr (a, b, fs')"
  shows "ReceiptStore_add H fromiso now_b self fs rb = Inr (b, fs')
       \<and> (\<exists>fs_a. ReceiptStore_add H fromiso now_a self fs ra = Inr (a, fs_a))
       \<and> (surviving_lines fromiso now_a self fs = surviving_lines fromiso now_b self fs \<longrightarrow>
            dict_get a ''prev_receipt_hash'' = dict_get b ''prev_receipt_hash'')
       \<and> (max_age_seconds self \<le> 0 \<longrightarrow>
            dict_get a ''prev_receipt_hash'' = dict_get b ''prev_receipt_hash'')"
proof -
  from assms obtain la lb fs1 where
    ca: "add_compute H fromiso now_a self fs ra = Inr (a, la)" and
    cb: "add_compute H fromiso now_b self fs rb = Inr (b, lb)" and
    w1: "write_lines self la fs = Inr fs1" and
    w2: "write_lines self lb fs1 = Inr fs'"
    by (auto simp: interleaved_adds_def split: sum.splits)
  have wb: "write_lines self lb fs = Inr fs'"
    using write_lines_twice[OF w1] w2 by simp
  have 1: "ReceiptStore_add H fromiso now_b self fs rb = Inr (b, fs')"
    by (simp add: ReceiptStore_add_compute cb wb)
  have 2: "\<exists>fs_a. ReceiptStore_add H fromiso now_a self fs ra = Inr (a, fs_a)"
    by (simp add: ReceiptStore_add_compute ca w1)
  have 3: "dict_get a ''prev_receipt_hash'' = dict_get b ''prev_receipt_hash''"
    if "surviving_lines fromiso now_a self fs = surviving_lines fromiso now_b self fs"
    using add_compute_prev[OF ca] add_compute_prev[OF cb] that by auto
  have 4: "dict_get a ''prev_receipt_hash'' = dict_get b ''prev_receipt_hash''"
    if "max_age_seconds self \<le> 0"
    using 3 surviving_lines_no_retention[OF that] by simp
  from 1 2 3 4 show ?thesis by simp
qed

theorem add_leaves_argument_witness:
  "(0::nat) < length [[(''trace_id'', JStr ''t''), (''hop'', JInt 0)]]
   \<and> ReceiptStore_add_obj (take 4) (\<lambda>s. Inl ValueError) 0 \<lparr>path = ''log'', max_age_seconds = 0\<rparr> \<lparr>nodes = Map.empty, denied = Map.empty\<rparr> [[(''trace_id'', JStr ''t''), (''hop'', JInt 0)]] 0
       = Inr (1, [[(''trace_id'', JStr ''t''), (''hop'', JInt 0)], [(''trace_id'', JStr ''t''), (''hop'', JInt 0), (''prev_receipt_hash'', JNull), (''receipt_hash'', JStr ''sha256:7b22686f'')]], \<lparr>nodes = [''log'' \<mapsto> Text (json_dumps (JDict [(''trace_id'', JStr ''t''), (''hop'', JInt 0), (''prev_receipt_hash'', JNull), (''receipt_hash'', JStr ''sha256:7b22686f'')]) @ [CHR 0x0A])], denied = Map.empty\<rparr>)
   \<and> [[(''trace_id'', JStr ''t''), (''hop'', JInt 0)], [(''trace_id'', JStr ''t''), (''hop'', JInt 0), (''prev_receipt_hash'', JNull), (''receipt_hash'', JStr ''sha256:7b22686f'')]] ! 0 = [(''trace_id'', JStr ''t''), (''hop'', JInt 0)]
   \<and> FirestoreReceiptStore_add_obj (take 4) (\<lambda>ds. []) \<lparr>documents = [], query_ok = True, insert_ok = True\<rparr> [[(''trace_id'', JStr ''t''), (''hop'', JInt 0)]] 0
       = Inr (1, [[(''trace_id'', JStr ''t''), (''hop'', JInt 0)], [(''trace_id'', JStr ''t''), (''hop'', JInt 0), (''prev_receipt_hash'', JNull), (''receipt_hash'', JStr ''sha256:7b22686f'')]], \<lparr>documents = [[(''trace_id'', JStr ''t''), (''hop'', JInt 0), (''prev_receipt_hash'', JNull), (''receipt_hash'', JStr ''sha256:7b22686f'')]], query_ok = True, insert_ok = True\<rparr>)"
proof -
  have l: "(0::nat) < length [[(''trace_id'', JStr ''t''), (''hop'', JInt 0)]]" by simp
  have e: "ReceiptStore_add_obj (take 4) (\<lambda>s. Inl ValueError) 0 \<lparr>path = ''log'', max_age_seconds = 0\<rparr> \<lparr>nodes = Map.empty, denied = Map.empty\<rparr> [[(''trace_id'', JStr ''t''), (''hop'', JInt 0)]] 0
       = Inr (1, [[(''trace_id'', JStr ''t''), (''hop'', JInt 0)], [(''trace_id'', JStr ''t''), (''hop'', JInt 0), (''prev_receipt_hash'', JNull), (''receipt_hash'', JStr ''sha256:7b22686f'')]], \<lparr>nodes = [''log'' \<mapsto> Text (json_dumps (JDict [(''trace_id'', JStr ''t''), (''hop'', JInt 0), (''prev_receipt_hash'', JNull), (''receipt_hash'', JStr ''sha256:7b22686f'')]) @ [CHR 0x0A])], denied = Map.empty\<rparr>)"
    by (simp add: ReceiptStore_add_obj_def Let_def read_lines_def surviving_lines_def last_hash_def prune_by_age_def dict_copy_def sha256_cid_def canonical_json_def encode_utf8_def utf8_char_def encode_basestring_def esc_char_def hexdigest_def hexchar_def write_lines_def str_int_def str_nat.simps latest_receipt_hash_def)
  have f: "FirestoreReceiptStore_add_obj (take 4) (\<lambda>ds. []) \<lparr>documents = [], query_ok = True, insert_ok = True\<rparr> [[(''trace_id'', JStr ''t''), (''hop'', JInt 0)]] 0
       = Inr (1, [[(''trace_id'', JStr ''t''), (''hop'', JInt 0)], [(''trace_id'', JStr ''t''), (''hop'', JInt 0), (''prev_receipt_hash'', JNull), (''receipt_hash'', JStr ''sha256:7b22686f'')]], \<lparr>documents = [[(''trace_id'', JStr ''t''), (''hop'', JInt 0), (''prev_receipt_hash'', JNull), (''receipt_hash'', JStr ''sha256:7b22686f'')]], query_ok = True, insert_ok = True\<rparr>)"
    by (simp add: FirestoreReceiptStore_add_obj_def Let_def read_lines_def surviving_lines_def last_hash_def prune_by_age_def dict_copy_def sha256_cid_def canonical_json_def encode_utf8_def utf8_char_def encode_basestring_def esc_char_def hexdigest_def hexchar_def write_lines_def str_int_def str_nat.simps latest_receipt_hash_def)
  from add_leaves_argument[OF l, of "take 4" "\<lambda>s. Inl ValueError" 0 "\<lparr>path = ''log'', max_age_seconds = 0\<rparr>" "\<lparr>nodes = Map.empty, denied = Map.empty\<rparr>" 1 "[[(''trace_id'', JStr ''t''), (''hop'', JInt 0)], [(''trace_id'', JStr ''t''), (''hop'', JInt 0), (''prev_receipt_hash'', JNull), (''receipt_hash'', JStr ''sha256:7b22686f'')]]" "\<lparr>nodes = [''log'' \<mapsto> Text (json_dumps (JDict [(''trace_id'', JStr ''t''), (''hop'', JInt 0), (''prev_receipt_hash'', JNull), (''receipt_hash'', JStr ''sha256:7b22686f'')]) @ [CHR 0x0A])], denied = Map.empty\<rparr>"
      "\<lambda>ds. []" "\<lparr>documents = [], query_ok = True, insert_ok = True\<rparr>" 1 "[[(''trace_id'', JStr ''t''), (''hop'', JInt 0)], [(''trace_id'', JStr ''t''), (''hop'', JInt 0), (''prev_receipt_hash'', JNull), (''receipt_hash'', JStr ''sha256:7b22686f'')]]" "\<lparr>documents = [[(''trace_id'', JStr ''t''), (''hop'', JInt 0), (''prev_receipt_hash'', JNull), (''receipt_hash'', JStr ''sha256:7b22686f'')]], query_ok = True, insert_ok = True\<rparr>"] l e f
  show ?thesis by simp
qed

theorem interleaved_adds_lose_update_witness:
  "interleaved_adds (take 8) (\<lambda>s. Inl ValueError) 0 1 \<lparr>path = ''log'', max_age_seconds = 0\<rparr> \<lparr>nodes = Map.empty, denied = Map.empty\<rparr> [(''trace_id'', JStr ''t''), (''hop'', JInt 0)] [(''trace_id'', JStr ''t''), (''hop'', JInt 1)] = Inr ([(''trace_id'', JStr ''t''), (''hop'', JInt 0), (''prev_receipt_hash'', JNull), (''receipt_hash'', JStr ''sha256:7b22686f70223a30'')], [(''trace_id'', JStr ''t''), (''hop'', JInt 1), (''prev_receipt_hash'', JNull), (''receipt_hash'', JStr ''sha256:7b22686f70223a31'')], \<lparr>nodes = [''log'' \<mapsto> Text (json_dumps (JDict [(''trace_id'', JStr ''t''), (''hop'', JInt 1), (''prev_receipt_hash'', JNull), (''receipt_hash'', JStr ''sha256:7b22686f70223a31'')]) @ [CHR 0x0A])], denied = Map.empty\<rparr>)
   \<and> ReceiptStore_add (take 8) (\<lambda>s. Inl ValueError) 1 \<lparr>path = ''log'', max_age_seconds = 0\<rparr> \<lparr>nodes = Map.empty, denied = Map.empty\<rparr> [(''trace_id'', JStr ''t''), (''hop'', JInt 1)] = Inr ([(''trace_id'', JStr ''t''), (''hop'', JInt 1), (''prev_receipt_hash'', JNull), (''receipt_hash'', JStr ''sha256:7b22686f70223a31'')], \<lparr>nodes = [''log'' \<mapsto> Text (json_dumps (JDict [(''trace_id'', JStr ''t''), (''hop'', JInt 1), (''prev_receipt_hash'', JNull), (''receipt_hash'', JStr ''sha256:7b22686f70223a31'')]) @ [CHR 0x0A])], denied = Map.empty\<rparr>)
   \<and> max_age_seconds \<lparr>path = ''log'', max_age_seconds = 0\<rparr> \<le> 0
   \<and> dict_get [(''trace_id'', JStr ''t''), (''hop'', JInt 0), (''prev_receipt_hash'', JNull), (''receipt_hash'', JStr ''sha256:7b22686f70223a30'')] ''prev_receipt_hash'' = dict_get [(''trace_id'', JStr ''t''), (''hop'', JInt 1), (''prev_receipt_hash'', JNull), (''receipt_hash'', JStr ''sha256:7b22686f70223a31'')] ''prev_receipt_hash''"
proof -
  have e: "interleaved_adds (take 8) (\<lambda>s. Inl ValueError) 0 1 \<lparr>path = ''log'', max_age_seconds = 0\<rparr> \<lparr>nodes = Map.empty, denied = Map.empty\<rparr> [(''trace_id'', JStr ''t''), (''hop'', JInt 0)] [(''trace_id'', JStr ''t''), (''hop'', JInt 1)] = Inr ([(''trace_id'', JStr ''t''), (''hop'', JInt 0), (''prev_receipt_hash'', JNull), (''receipt_hash'', JStr ''sha256:7b22686f70223a30'')], [(''trace_id'', JStr ''t''), (''hop'', JInt 1), (''prev_receipt_hash'', JNull), (''receipt_hash'', JStr ''sha256:7b22686f70223a31'')], \<lparr>nodes = [''log'' \<mapsto> Text (json_dumps (JDict [(''trace_id'', JStr ''t''), (''hop'', JInt 1), (''prev_receipt_hash'', JNull), (''receipt_hash'', JStr ''sha256:7b22686f70223a31'')]) @ [CHR 0x0A])], denied = Map.empty\<rparr>)"
    by (simp add: interleaved_adds_def add_compute_def Let_def read_lines_def surviving_lines_def last_hash_def prune_by_age_def dict_copy_def sha256_cid_def canonical_json_def encode_utf8_def utf8_char_def encode_basestring_def esc_char_def hexdigest_def hexchar_def write_lines_def str_int_def str_nat.simps latest_receipt_hash_def)
  have m: "max_age_seconds \<lparr>path = ''log'', max_age_seconds = 0\<rparr> \<le> 0" by simp
  from interleaved_adds_lose_update[OF e] e m show ?thesis by simp
qed

theorem interleaved_adds_counterexample:
  "interleaved_adds (take 8) (\<lambda>s. Inl ValueError) 0 1 \<lparr>path = ''log'', max_age_seconds = 0\<rparr> \<lparr>nodes = Map.empty, denied = Map.empty\<rparr> [(''trace_id'', JStr ''t''), (''hop'', JInt 0)] [(''trace_id'', JStr ''t''), (''hop'', JInt 1)] = Inr ([(''trace_id'', JStr ''t''), (''hop'', JInt 0), (''prev_receipt_hash'', JNull), (''receipt_hash'', JStr ''sha256:7b22686f70223a30'')], [(''trace_id'', JStr ''t''), (''hop'', JInt 1), (''prev_receipt_hash'', JNull), (''receipt_hash'', JStr ''sha256:7b22686f70223a31'')], \<lparr>nodes = [''log'' \<mapsto> Text (json_dumps (JDict [(''trace_id'', JStr ''t''), (''hop'', JInt 1), (''prev_receipt_hash'', JNull), (''receipt_hash'', JStr ''sha256:7b22686f70223a31'')]) @ [CHR 0x0A])], denied = Map.empty\<rparr>)
   \<and> dict_get [(''trace_id'', JStr ''t''), (''hop'', JInt 0), (''prev_receipt_hash'', JNull), (''receipt_hash'', JStr ''sha256:7b22686f70223a30'')] ''prev_receipt_hash'' = JNull
   \<and> dict_get [(''trace_id'', JStr ''t''), (''hop'', JInt 1), (''prev_receipt_hash'', JNull), (''receipt_hash'', JStr ''sha256:7b22686f70223a31'')] ''prev_receipt_hash'' = JNull
   \<and> ReceiptStore_chain \<lparr>path = ''log'', max_age_seconds = 0\<rparr> \<lparr>nodes = [''log'' \<mapsto> Text (json_dumps (JDict [(''trace_id'', JStr ''t''), (''hop'', JInt 1), (''prev_receipt_hash'', JNull), (''receipt_hash'', JStr ''sha256:7b22686f70223a31'')]) @ [CHR 0x0A])], denied = Map.empty\<rparr> ''t'' = Inr [[(''trace_id'', JStr ''t''), (''hop'', JInt 1), (''prev_receipt_hash'', JNull), (''receipt_hash'', JStr ''sha256:7b22686f70223a31'')]]"
proof -
  have e: "interleaved_adds (take 8) (\<lambda>s. Inl ValueError) 0 1 \<lparr>path = ''log'', max_age_seconds = 0\<rparr> \<lparr>nodes = Map.empty, denied = Map.empty\<rparr> [(''trace_id'', JStr ''t''), (''hop'', JInt 0)] [(''trace_id'', JStr ''t''), (''hop'', JInt 1)] = Inr ([(''trace_id'', JStr ''t''), (''hop'', JInt 0), (''prev_receipt_hash'', JNull), (''receipt_hash'', JStr ''sha256:7b22686f70223a30'')], [(''trace_id'', JStr ''t''), (''hop'', JInt 1), (''prev_receipt_hash'', JNull), (''receipt_hash'', JStr ''sha256:7b22686f70223a31'')], \<lparr>nodes = [''log'' \<mapsto> Text (json_dumps (JDict [(''trace_id'', JStr ''t''), (''hop'', JInt 1), (''prev_receipt_hash'', JNull), (''receipt_hash'', JStr ''sha256:7b22686f70223a31'')]) @ [CHR 0x0A])], denied = Map.empty\<rparr>)"
    by (simp add: interleaved_adds_def add_compute_def Let_def read_lines_def surviving_lines_def last_hash_def prune_by_age_def dict_copy_def sha256_cid_def canonical_json_def encode_utf8_def utf8_char_def encode_basestring_def esc_char_def hexdigest_def hexchar_def write_lines_def str_int_def str_nat.simps latest_receipt_hash_def)
  have c: "ReceiptStore_chain \<lparr>path = ''log'', max_age_seconds = 0\<rparr> \<lparr>nodes = [''log'' \<mapsto> Text (json_dumps (JDict [(''trace_id'', JStr ''t''), (''hop'', JInt 1), (''prev_receipt_hash'', JNull), (''receipt_hash'', JStr ''sha256:7b22686f70223a31'')]) @ [CHR 0x0A])], denied = Map.empty\<rparr> ''t'' = Inr [[(''trace_id'', JStr ''t''), (''hop'', JInt 1), (''prev_receipt_hash'', JNull), (''receipt_hash'', JStr ''sha256:7b22686f70223a31'')]]"
    by code_simp
  from e c show ?thesis by (simp add: dict_get_def)
qed

section \<open>The order of a chain\<close>

lemma tuple_lt_typed:
  "tuple_lt (JInt i, JStr s) (JInt j, JStr t) = Inr (i < j \<or> (i = j \<and> s < t))"
  by (auto simp: tuple_lt_def)

lemma typed_keyD: "typed_key x \<Longrightarrow> sort_key_of x = (JInt (fst (key_of x)), JStr (snd (key_of x)))"
  by (auto simp: typed_key_def key_of_def split: prod.splits json.splits)

lemma comparable_typed: "typed_key x \<Longrightarrow> typed_key y \<Longrightarrow> comparable x y"
  by (simp add: comparable_def typed_keyD tuple_lt_typed)

lemma key_less_typed:
  "typed_key x \<Longrightarrow> typed_key y \<Longrightarrow>
   key_less x y \<longleftrightarrow> (fst (key_of x) < fst (key_of y)
        \<or> (fst (key_of x) = fst (key_of y) \<and> snd (key_of x) < snd (key_of y)))"
  by (simp add: key_less_def typed_keyD tuple_lt_typed)

lemma key_le_total:
  "typed_key x \<Longrightarrow> typed_key y \<Longrightarrow> \<not> key_less x y \<Longrightarrow> key_le (key_of y) (key_of x)"
  by (auto simp: key_less_typed key_le_def)

lemma key_less_le:
  "typed_key x \<Longrightarrow> typed_key y \<Longrightarrow> key_less x y \<Longrightarrow> key_le (key_of x) (key_of y)"
  by (auto simp: key_less_typed key_le_def)

lemma key_le_trans: "key_le p q \<Longrightarrow> key_le q r \<Longrightarrow> key_le p r"
  by (auto simp: key_le_def)

lemma set_insert_sorted: "set (insert_sorted x ys) = insert x (set ys)"
  by (induction ys) auto

lemma mset_insert_sorted: "mset (insert_sorted x ys) = add_mset x (mset ys)"
  by (induction ys) auto

lemma sorted_insert_sorted:
  assumes "typed_key x" "\<forall>y \<in> set ys. typed_key y" "sorted_by_key ys"
  shows "sorted_by_key (insert_sorted x ys)"
  using assms
proof (induction ys)
  case Nil
  then show ?case by (simp add: sorted_by_key_def)
next
  case (Cons y ys)
  show ?case
  proof (cases "key_less x y")
    case True
    then have xy: "key_le (key_of x) (key_of y)"
      using Cons.prems by (simp add: key_less_le)
    have "\<forall>z \<in> set ys. key_le (key_of x) (key_of z)"
      using Cons.prems(3) xy by (auto simp: sorted_by_key_def intro: key_le_trans)
    with True xy Cons.prems(3) show ?thesis by (simp add: sorted_by_key_def)
  next
    case False
    then have yx: "key_le (key_of y) (key_of x)"
      using Cons.prems by (simp add: key_le_total)
    have "sorted_by_key (insert_sorted x ys)"
      using Cons by (simp add: sorted_by_key_def)
    with False yx Cons.prems(3) show ?thesis
      by (auto simp: sorted_by_key_def set_insert_sorted)
  qed
qed

lemma foldl_insert_sorted:
  assumes "\<forall>x \<in> set xs. typed_key x" "\<forall>y \<in> set acc. typed_key y" "sorted_by_key acc"
  shows "sorted_by_key (foldl (\<lambda>acc x. insert_sorted x acc) acc xs)
       \<and> mset (foldl (\<lambda>acc x. insert_sorted x acc) acc xs) = mset xs + mset acc"
  using assms
proof (induction xs arbitrary: acc)
  case Nil
  then show ?case by simp
next
  case (Cons x xs)
  have "sorted_by_key (insert_sorted x acc)"
    using Cons.prems by (simp add: sorted_insert_sorted)
  moreover have "\<forall>y \<in> set (insert_sorted x acc). typed_key y"
    using Cons.prems by (simp add: set_insert_sorted)
  ultimately show ?case
    using Cons.IH[of "insert_sorted x acc"] Cons.prems(1) by (simp add: mset_insert_sorted)
qed

lemma list_sort_typed:
  assumes "\<forall>x \<in> set out. typed_key x"
  shows "\<exists>res. list_sort out = Inr res \<and> mset res = mset out \<and> sorted_by_key res"
proof -
  have "list_all (\<lambda>x. list_all (comparable x) out) out"
    using assms by (simp add: list_all_iff comparable_typed)
  moreover have "sorted_by_key []" by (simp add: sorted_by_key_def)
  ultimately show ?thesis
    using foldl_insert_sorted[of out "[]"] assms by (simp add: list_sort_def)
qed

lemma chain_loop_matching:
  "chain_loop k lines = Inr out \<Longrightarrow> out = matching_records k lines"
proof (induction lines arbitrary: out)
  case Nil
  then show ?case by (simp add: matching_records_def List.map_filter_simps)
next
  case (Cons ln lines)
  then show ?case
    by (auto simp: matching_records_def List.map_filter_simps chain_line_def
        split: sum.splits option.splits json.splits pyerr.splits if_splits)
qed

lemma chain_loop_in_model:
  "\<forall>ln \<in> set lines. json_loads ln \<noteq> Inl OutsideModel \<Longrightarrow>
   chain_loop k lines = Inr (matching_records k lines)"
proof (induction lines)
  case Nil
  then show ?case by (simp add: matching_records_def List.map_filter_simps)
next
  case (Cons ln lines)
  then show ?case
    by (auto simp: matching_records_def List.map_filter_simps chain_line_def
        split: sum.splits option.splits json.splits pyerr.splits if_splits)
qed

lemma mset_matching_records:
  "mset lines' = mset lines \<Longrightarrow> mset (matching_records k lines') = mset (matching_records k lines)"
proof -
  assume m: "mset lines' = mset lines"
  have "mset (List.map_filter g lines') = mset (List.map_filter g lines)" for g :: "string \<Rightarrow> dict option"
    unfolding List.map_filter_def using m by (metis mset_filter mset_map)
  then show ?thesis by (simp add: matching_records_def)
qed

text \<open>
  C5. For a log whose lines lie in the model and whose file can be read, when the records
  with correlation key \<open>k\<close> have an integer hop (or none) and a string timestamp (or
  none), the file-backed \<^verbatim>\<open>chain(k)\<close> returns exactly the parseable log records whose
  correlation key is \<open>k\<close>, sorted ascending by the pair of hop and timestamp, whatever
  the order in which they were appended. The remote \<^verbatim>\<open>chain(k)\<close> does the same for the
  documents of the collection when its query succeeds.
\<close>

theorem chain_sorted:
  "(read_lines self fs = Inr lines
      \<and> (\<forall>ln \<in> set lines. json_loads ln \<noteq> Inl OutsideModel)
      \<and> (\<forall>x \<in> set (matching_records k lines). typed_key x) \<longrightarrow>
      (\<exists>res. ReceiptStore_chain self fs k = Inr res
            \<and> mset res = mset (matching_records k lines)
            \<and> sorted_by_key res))
   \<and> (mset lines' = mset lines \<longrightarrow>
        mset (matching_records k lines') = mset (matching_records k lines))
   \<and> (query_ok rem \<and> (\<forall>x \<in> set (filter (\<lambda>d. map_of d ''trace_id'' = Some (JStr k)) (documents rem)). typed_key x) \<longrightarrow>
      (\<exists>res. FirestoreReceiptStore_chain rem k = Inr res
            \<and> mset res = mset (filter (\<lambda>d. map_of d ''trace_id'' = Some (JStr k)) (documents rem))
            \<and> sorted_by_key res))"
proof (intro conjI impI)
  assume a: "read_lines self fs = Inr lines
      \<and> (\<forall>ln \<in> set lines. json_loads ln \<noteq> Inl OutsideModel)
      \<and> (\<forall>x \<in> set (matching_records k lines). typed_key x)"
  then have "chain_loop k lines = Inr (matching_records k lines)"
    by (simp add: chain_loop_in_model)
  with a list_sort_typed[of "matching_records k lines"]
  show "\<exists>res. ReceiptStore_chain self fs k = Inr res
            \<and> mset res = mset (matching_records k lines)
            \<and> sorted_by_key res"
    by (simp add: ReceiptStore_chain_def)
next
  assume "mset lines' = mset lines"
  then show "mset (matching_records k lines') = mset (matching_records k lines)"
    by (rule mset_matching_records)
next
  assume a: "query_ok rem \<and> (\<forall>x \<in> set (filter (\<lambda>d. map_of d ''trace_id'' = Some (JStr k)) (documents rem)). typed_key x)"
  with list_sort_typed[of "filter (\<lambda>d. map_of d ''trace_id'' = Some (JStr k)) (documents rem)"]
  show "\<exists>res. FirestoreReceiptStore_chain rem k = Inr res
            \<and> mset res = mset (filter (\<lambda>d. map_of d ''trace_id'' = Some (JStr k)) (documents rem))
            \<and> sorted_by_key res"
    by (simp add: FirestoreReceiptStore_chain_def)
qed

theorem chain_sorted_witness:
  "read_lines \<lparr>path = ''log'', max_age_seconds = 0\<rparr> \<lparr>nodes = [''log'' \<mapsto> Text (json_dumps (JDict [(''trace_id'', JStr ''trace-x''), (''hop'', JInt 2), (''ts'', JStr ''2025-01-01T00:00:02Z'')]) @ [CHR 0x0A] @ json_dumps (JDict [(''trace_id'', JStr ''trace-y''), (''hop'', JInt 0)]) @ [CHR 0x0A] @ ''not json'' @ [CHR 0x0A] @ json_dumps (JDict [(''trace_id'', JStr ''trace-x''), (''hop'', JInt 0), (''ts'', JStr ''2025-01-01T00:00:03Z'')]) @ [CHR 0x0A] @ json_dumps (JDict [(''trace_id'', JStr ''trace-x''), (''hop'', JInt 1), (''ts'', JStr ''2025-01-01T00:00:01Z'')]) @ [CHR 0x0A])], denied = Map.empty\<rparr> = Inr [json_dumps (JDict [(''trace_id'', JStr ''trace-x''), (''hop'', JInt 2), (''ts'', JStr ''2025-01-01T00:00:02Z'')]), json_dumps (JDict [(''trace_id'', JStr ''trace-y''), (''hop'', JInt 0)]), ''not json'', json_dumps (JDict [(''trace_id'', JStr ''trace-x''), (''hop'', JInt 0), (''ts'', JStr ''2025-01-01T00:00:03Z'')]), json_dumps (JDict [(''trace_id'', JStr ''trace-x''), (''hop'', JInt 1), (''ts'', JStr ''2025-01-01T00:00:01Z'')])]
   \<and> matching_records ''trace-x'' [json_dumps (JDict [(''trace_id'', JStr ''trace-x''), (''hop'', JInt 2), (''ts'', JStr ''2025-01-01T00:00:02Z'')]), json_dumps (JDict [(''trace_id'', JStr ''trace-y''), (''hop'', JInt 0)]), ''not json'', json_dumps (JDict [(''trace_id'', JStr ''trace-x''), (''hop'', JInt 0), (''ts'', JStr ''2025-01-01T00:00:03Z'')]), json_dumps (JDict [(''trace_id'', JStr ''trace-x''), (''hop'', JInt 1), (''ts'', JStr ''2025-01-01T00:00:01Z'')])] = [[(''trace_id'', JStr ''trace-x''), (''hop'', JInt 2), (''ts'', JStr ''2025-01-01T00:00:02Z'')], [(''trace_id'', JStr ''trace-x''), (''hop'', JInt 0), (''ts'', JStr ''2025-01-01T00:00:03Z'')], [(''trace_id'', JStr ''trace-x''), (''hop'', JInt 1), (''ts'', JStr ''2025-01-01T00:00:01Z'')]]
   \<and> ReceiptStore_chain \<lparr>path = ''log'', max_age_seconds = 0\<rparr> \<lparr>nodes = [''log'' \<mapsto> Text (json_dumps (JDict [(''trace_id'', JStr ''trace-x''), (''hop'', JInt 2), (''ts'', JStr ''2025-01-01T00:00:02Z'')]) @ [CHR 0x0A] @ json_dumps (JDict [(''trace_id'', JStr ''trace-y''), (''hop'', JInt 0)]) @ [CHR 0x0A] @ ''not json'' @ [CHR 0x0A] @ json_dumps (JDict [(''trace_id'', JStr ''trace-x''), (''hop'', JInt 0), (''ts'', JStr ''2025-01-01T00:00:03Z'')]) @ [CHR 0x0A] @ json_dumps (JDict [(''trace_id'', JStr ''trace-x''), (''hop'', JInt 1), (''ts'', JStr ''2025-01-01T00:00:01Z'')]) @ [CHR 0x0A])], denied = Map.empty\<rparr> ''trace-x'' = Inr [[(''trace_id'', JStr ''trace-x''), (''hop'', JInt 0), (''ts'', JStr ''2025-01-01T00:00:03Z'')], [(''trace_id'', JStr ''trace-x''), (''hop'', JInt 1), (''ts'', JStr ''2025-01-01T00:00:01Z'')], [(''trace_id'', JStr ''trace-x''), (''hop'', JInt 2), (''ts'', JStr ''2025-01-01T00:00:02Z'')]]
   \<and> sorted_by_key [[(''trace_id'', JStr ''trace-x''), (''hop'', JInt 0), (''ts'', JStr ''2025-01-01T00:00:03Z'')], [(''trace_id'', JStr ''trace-x''), (''hop'', JInt 1), (''ts'', JStr ''2025-01-01T00:00:01Z'')], [(''trace_id'', JStr ''trace-x''), (''hop'', JInt 2), (''ts'', JStr ''2025-01-01T00:00:02Z'')]]
   \<and> query_ok \<lparr>documents = [[(''trace_id'', JStr ''trace-x''), (''hop'', JInt 2), (''ts'', JStr ''2025-01-01T00:00:02Z'')], [(''trace_id'', JStr ''trace-y''), (''hop'', JInt 0)], [(''trace_id'', JStr ''trace-x''), (''hop'', JInt 0), (''ts'', JStr ''2025-01-01T00:00:03Z'')], [(''trace_id'', JStr ''trace-x''), (''hop'', JInt 1), (''ts'', JStr ''2025-01-01T00:00:01Z'')]], query_ok = True, insert_ok = True\<rparr>
   \<and> FirestoreReceiptStore_chain \<lparr>documents = [[(''trace_id'', JStr ''trace-x''), (''hop'', JInt 2), (''ts'', JStr ''2025-01-01T00:00:02Z'')], [(''trace_id'', JStr ''trace-y''), (''hop'', JInt 0)], [(''trace_id'', JStr ''trace-x''), (''hop'', JInt 0), (''ts'', JStr ''2025-01-01T00:00:03Z'')], [(''trace_id'', JStr ''trace-x''), (''hop'', JInt 1), (''ts'', JStr ''2025-01-01T00:00:01Z'')]], query_ok = True, insert_ok = True\<rparr> ''trace-x'' = Inr [[(''trace_id'', JStr ''trace-x''), (''hop'', JInt 0), (''ts'', JStr ''2025-01-01T00:00:03Z'')], [(''trace_id'', JStr ''trace-x''), (''hop'', JInt 1), (''ts'', JStr ''2025-01-01T00:00:01Z'')], [(''trace_id'', JStr ''trace-x''), (''hop'', JInt 2), (''ts'', JStr ''2025-01-01T00:00:02Z'')]]"
proof -
  have r: "read_lines \<lparr>path = ''log'', max_age_seconds = 0\<rparr> \<lparr>nodes = [''log'' \<mapsto> Text (json_dumps (JDict [(''trace_id'', JStr ''trace-x''), (''hop'', JInt 2), (''ts'', JStr ''2025-01-01T00:00:02Z'')]) @ [CHR 0x0A] @ json_dumps (JDict [(''trace_id'', JStr ''trace-y''), (''hop'', JInt 0)]) @ [CHR 0x0A] @ ''not json'' @ [CHR 0x0A] @ json_dumps (JDict [(''trace_id'', JStr ''trace-x''), (''hop'', JInt 0), (''ts'', JStr ''2025-01-01T00:00:03Z'')]) @ [CHR 0x0A] @ json_dumps (JDict [(''trace_id'', JStr ''trace-x''), (''hop'', JInt 1), (''ts'', JStr ''2025-01-01T00:00:01Z'')]) @ [CHR 0x0A])], denied = Map.empty\<rparr> = Inr [json_dumps (JDict [(''trace_id'', JStr ''trace-x''), (''hop'', JInt 2), (''ts'', JStr ''2025-01-01T00:00:02Z'')]), json_dumps (JDict [(''trace_id'', JStr ''trace-y''), (''hop'', JInt 0)]), ''not json'', json_dumps (JDict [(''trace_id'', JStr ''trace-x''), (''hop'', JInt 0), (''ts'', JStr ''2025-01-01T00:00:03Z'')]), json_dumps (JDict [(''trace_id'', JStr ''trace-x''), (''hop'', JInt 1), (''ts'', JStr ''2025-01-01T00:00:01Z'')])]"
    by code_simp
  have m: "\<forall>ln \<in> set [json_dumps (JDict [(''trace_id'', JStr ''trace-x''), (''hop'', JInt 2), (''ts'', JStr ''2025-01-01T00:00:02Z'')]), json_dumps (JDict [(''trace_id'', JStr ''trace-y''), (''hop'', JInt 0)]), ''not json'', json_dumps (JDict [(''trace_id'', JStr ''trace-x''), (''hop'', JInt 0), (''ts'', JStr ''2025-01-01T00:00:03Z'')]), json_dumps (JDict [(''trace_id'', JStr ''trace-x''), (''hop'', JInt 1), (''ts'', JStr ''2025-01-01T00:00:01Z'')])]. json_loads ln \<noteq> Inl OutsideModel"
    by code_simp
  have mr: "matching_records ''trace-x'' [json_dumps (JDict [(''trace_id'', JStr ''trace-x''), (''hop'', JInt 2), (''ts'', JStr ''2025-01-01T00:00:02Z'')]), json_dumps (JDict [(''trace_id'', JStr ''trace-y''), (''hop'', JInt 0)]), ''not json'', json_dumps (JDict [(''trace_id'', JStr ''trace-x''), (''hop'', JInt 0), (''ts'', JStr ''2025-01-01T00:00:03Z'')]), json_dumps (JDict [(''trace_id'', JStr ''trace-x''), (''hop'', JInt 1), (''ts'', JStr ''2025-01-01T00:00:01Z'')])] = [[(''trace_id'', JStr ''trace-x''), (''hop'', JInt 2), (''ts'', JStr ''2025-01-01T00:00:02Z'')], [(''trace_id'', JStr ''trace-x''), (''hop'', JInt 0), (''ts'', JStr ''2025-01-01T00:00:03Z'')], [(''trace_id'', JStr ''trace-x''), (''hop'', JInt 1), (''ts'', JStr ''2025-01-01T00:00:01Z'')]]"
    by code_simp
  have t: "\<forall>x \<in> set (matching_records ''trace-x'' [json_dumps (JDict [(''trace_id'', JStr ''trace-x''), (''hop'', JInt 2), (''ts'', JStr ''2025-01-01T00:00:02Z'')]), json_dumps (JDict [(''trace_id'', JStr ''trace-y''), (''hop'', JInt 0)]), ''not json'', json_dumps (JDict [(''trace_id'', JStr ''trace-x''), (''hop'', JInt 0), (''ts'', JStr ''2025-01-01T00:00:03Z'')]), json_dumps (JDict [(''trace_id'', JStr ''trace-x''), (''hop'', JInt 1), (''ts'', JStr ''2025-01-01T00:00:01Z'')])]). typed_key x"
    unfolding mr by code_simp
  have c: "ReceiptStore_chain \<lparr>path = ''log'', max_age_seconds = 0\<rparr> \<lparr>nodes = [''log'' \<mapsto> Text (json_dumps (JDict [(''trace_id'', JStr ''trace-x''), (''hop'', JInt 2), (''ts'', JStr ''2025-01-01T00:00:02Z'')]) @ [CHR 0x0A] @ json_dumps (JDict [(''trace_id'', JStr ''trace-y''), (''hop'', JInt 0)]) @ [CHR 0x0A] @ ''not json'' @ [CHR 0x0A] @ json_dumps (JDict [(''trace_id'', JStr ''trace-x''), (''hop'', JInt 0), (''ts'', JStr ''2025-01-01T00:00:03Z'')]) @ [CHR 0x0A] @ json_dumps (JDict [(''trace_id'', JStr ''trace-x''), (''hop'', JInt 1), (''ts'', JStr ''2025-01-01T00:00:01Z'')]) @ [CHR 0x0A])], denied = Map.empty\<rparr> ''trace-x'' = Inr [[(''trace_id'', JStr ''trace-x''), (''hop'', JInt 0), (''ts'', JStr ''2025-01-01T00:00:03Z'')], [(''trace_id'', JStr ''trace-x''), (''hop'', JInt 1), (''ts'', JStr ''2025-01-01T00:00:01Z'')], [(''trace_id'', JStr ''trace-x''), (''hop'', JInt 2), (''ts'', JStr ''2025-01-01T00:00:02Z'')]]"
    by code_simp
  have q: "query_ok \<lparr>documents = [[(''trace_id'', JStr ''trace-x''), (''hop'', JInt 2), (''ts'', JStr ''2025-01-01T00:00:02Z'')], [(''trace_id'', JStr ''trace-y''), (''hop'', JInt 0)], [(''trace_id'', JStr ''trace-x''), (''hop'', JInt 0), (''ts'', JStr ''2025-01-01T00:00:03Z'')], [(''trace_id'', JStr ''trace-x''), (''hop'', JInt 1), (''ts'', JStr ''2025-01-01T00:00:01Z'')]], query_ok = True, insert_ok = True\<rparr>" by simp
  have f: "filter (\<lambda>d. map_of d ''trace_id'' = Some (JStr ''trace-x'')) (documents \<lparr>documents = [[(''trace_id'', JStr ''trace-x''), (''hop'', JInt 2), (''ts'', JStr ''2025-01-01T00:00:02Z'')], [(''trace_id'', JStr ''trace-y''), (''hop'', JInt 0)], [(''trace_id'', JStr ''trace-x''), (''hop'', JInt 0), (''ts'', JStr ''2025-01-01T00:00:03Z'')], [(''trace_id'', JStr ''trace-x''), (''hop'', JInt 1), (''ts'', JStr ''2025-01-01T00:00:01Z'')]], query_ok = True, insert_ok = True\<rparr>) = [[(''trace_id'', JStr ''trace-x''), (''hop'', JInt 2), (''ts'', JStr ''2025-01-01T00:00:02Z'')], [(''trace_id'', JStr ''trace-x''), (''hop'', JInt 0), (''ts'', JStr ''2025-01-01T00:00:03Z'')], [(''trace_id'', JStr ''trace-x''), (''hop'', JInt 1), (''ts'', JStr ''2025-01-01T00:00:01Z'')]]"
    by code_simp
  have tr: "\<forall>x \<in> set (filter (\<lambda>d. map_of d ''trace_id'' = Some (JStr ''trace-x'')) (documents \<lparr>documents = [[(''trace_id'', JStr ''trace-x''), (''hop'', JInt 2), (''ts'', JStr ''2025-01-01T00:00:02Z'')], [(''trace_id'', JStr ''trace-y''), (''hop'', JInt 0)], [(''trace_id'', JStr ''trace-x''), (''hop'', JInt 0), (''ts'', JStr ''2025-01-01T00:00:03Z'')], [(''trace_id'', JStr ''trace-x''), (''hop'', JInt 1), (''ts'', JStr ''2025-01-01T00:00:01Z'')]], query_ok = True, insert_ok = True\<rparr>)). typed_key x"
    unfolding f by code_simp
  have cr: "FirestoreReceiptStore_chain \<lparr>documents = [[(''trace_id'', JStr ''trace-x''), (''hop'', JInt 2), (''ts'', JStr ''2025-01-01T00:00:02Z'')], [(''trace_id'', JStr ''trace-y''), (''hop'', JInt 0)], [(''trace_id'', JStr ''trace-x''), (''hop'', JInt 0), (''ts'', JStr ''2025-01-01T00:00:03Z'')], [(''trace_id'', JStr ''trace-x''), (''hop'', JInt 1), (''ts'', JStr ''2025-01-01T00:00:01Z'')]], query_ok = True, insert_ok = True\<rparr> ''trace-x'' = Inr [[(''trace_id'', JStr ''trace-x''), (''hop'', JInt 0), (''ts'', JStr ''2025-01-01T00:00:03Z'')], [(''trace_id'', JStr ''trace-x''), (''hop'', JInt 1), (''ts'', JStr ''2025-01-01T00:00:01Z'')], [(''trace_id'', JStr ''trace-x''), (''hop'', JInt 2), (''ts'', JStr ''2025-01-01T00:00:02Z'')]]"
    by code_simp
  from chain_sorted[of "\<lparr>path = ''log'', max_age_seconds = 0\<rparr>" "\<lparr>nodes = [''log'' \<mapsto> Text (json_dumps (JDict [(''trace_id'', JStr ''trace-x''), (''hop'', JInt 2), (''ts'', JStr ''2025-01-01T00:00:02Z'')]) @ [CHR 0x0A] @ json_dumps (JDict [(''trace_id'', JStr ''trace-y''), (''hop'', JInt 0)]) @ [CHR 0x0A] @ ''not json'' @ [CHR 0x0A] @ json_dumps (JDict [(''trace_id'', JStr ''trace-x''), (''hop'', JInt 0), (''ts'', JStr ''2025-01-01T00:00:03Z'')]) @ [CHR 0x0A] @ json_dumps (JDict [(''trace_id'', JStr ''trace-x''), (''hop'', JInt 1), (''ts'', JStr ''2025-01-01T00:00:01Z'')]) @ [CHR 0x0A])], denied = Map.empty\<rparr>" "[json_dumps (JDict [(''trace_id'', JStr ''trace-x''), (''hop'', JInt 2), (''ts'', JStr ''2025-01-01T00:00:02Z'')]), json_dumps (JDict [(''trace_id'', JStr ''trace-y''), (''hop'', JInt 0)]), ''not json'', json_dumps (JDict [(''trace_id'', JStr ''trace-x''), (''hop'', JInt 0), (''ts'', JStr ''2025-01-01T00:00:03Z'')]), json_dumps (JDict [(''trace_id'', JStr ''trace-x''), (''hop'', JInt 1), (''ts'', JStr ''2025-01-01T00:00:01Z'')])]" "''trace-x''" "[json_dumps (JDict [(''trace_id'', JStr ''trace-x''), (''hop'', JInt 2), (''ts'', JStr ''2025-01-01T00:00:02Z'')]), json_dumps (JDict [(''trace_id'', JStr ''trace-y''), (''hop'', JInt 0)]), ''not json'', json_dumps (JDict [(''trace_id'', JStr ''trace-x''), (''hop'', JInt 0), (''ts'', JStr ''2025-01-01T00:00:03Z'')]), json_dumps (JDict [(''trace_id'', JStr ''trace-x''), (''hop'', JInt 1), (''ts'', JStr ''2025-01-01T00:00:01Z'')])]" "\<lparr>documents = [[(''trace_id'', JStr ''trace-x''), (''hop'', JInt 2), (''ts'', JStr ''2025-01-01T00:00:02Z'')], [(''trace_id'', JStr ''trace-y''), (''hop'', JInt 0)], [(''trace_id'', JStr ''trace-x''), (''hop'', JInt 0), (''ts'', JStr ''2025-01-01T00:00:03Z'')], [(''trace_id'', JStr ''trace-x''), (''hop'', JInt 1), (''ts'', JStr ''2025-01-01T00:00:01Z'')]], query_ok = True, insert_ok = True\<rparr>"] r m t c q tr cr
  have "sorted_by_key [[(''trace_id'', JStr ''trace-x''), (''hop'', JInt 0), (''ts'', JStr ''2025-01-01T00:00:03Z'')], [(''trace_id'', JStr ''trace-x''), (''hop'', JInt 1), (''ts'', JStr ''2025-01-01T00:00:01Z'')], [(''trace_id'', JStr ''trace-x''), (''hop'', JInt 2), (''ts'', JStr ''2025-01-01T00:00:02Z'')]]" by simp
  with r mr c q cr show ?thesis by simp
qed

theorem chain_counterexample:
  "FirestoreReceiptStore_chain \<lparr>documents = [[(''trace_id'', JStr ''trace-x''), (''hop'', JInt 0), (''ts'', JStr ''2025-01-01T00:00:03Z'')]], query_ok = False, insert_ok = True\<rparr> ''trace-x'' = Inr []
   \<and> map_of [(''trace_id'', JStr ''trace-x''), (''hop'', JInt 0), (''ts'', JStr ''2025-01-01T00:00:03Z'')] ''trace_id'' = Some (JStr ''trace-x'')
   \<and> ReceiptStore_chain \<lparr>path = ''log'', max_age_seconds = 0\<rparr> \<lparr>nodes = [''log'' \<mapsto> Text (json_dumps (JDict [(''trace_id'', JStr ''t''), (''hop'', JInt 1)]) @ [CHR 0x0A] @ json_dumps (JDict [(''trace_id'', JStr ''t''), (''hop'', JStr ''a'')]) @ [CHR 0x0A])], denied = Map.empty\<rparr> ''t'' = Inl TypeError
   \<and> matching_records ''t'' [json_dumps (JDict [(''trace_id'', JStr ''t''), (''hop'', JInt 1)]), json_dumps (JDict [(''trace_id'', JStr ''t''), (''hop'', JStr ''a'')])] = [[(''trace_id'', JStr ''t''), (''hop'', JInt 1)], [(''trace_id'', JStr ''t''), (''hop'', JStr ''a'')]]"
  by code_simp

end
